theory Spec2Isabelle
  imports Main
begin

section \<open>The discovery proxy (src/app.js): data model\<close>

text \<open>
  src/app.js holds two variants of the proxy: the minimal one (\<open>getIpForPod\<close> and its two
  handlers, lines 1-71) and the full one (\<open>discoverAndGetIp\<close>, \<open>checkAllPodsHavePodId\<close> and
  its two handlers, lines 71-303). Both are embedded, each function under its own name.

  Everything outside the file is a parameter: the process environment (\<open>proc_env\<close>), and
  the outside world one call sees (\<open>world\<close>): what the resolver answers, what each HTTP GET
  answers, and what \<open>Date.now()\<close> reads at the two places a discovery call reads it. Times
  are in milliseconds, as \<open>Date.now()\<close> gives them. Every call that leaves the process is
  recorded as an \<open>event\<close>, in the order the code issues it; log lines are not recorded.
  A call is modelled on its own, from the cache it finds to the cache it leaves: what other
  requests write to the cache while it waits is not part of it.
\<close>

type_synonym ip_addr = string

text \<open>The value of \<open>POD_CACHE.get(podId)\<close>: \<open>{ ip, expiresAt }\<close>.\<close>

record cache_entry =
  cached_ip :: ip_addr
  expiresAt :: int

type_synonym pod_cache = "string \<rightharpoonup> cache_entry"

text \<open>\<open>process.env.COLYSEUS_INTERNAL_URL\<close> and \<open>process.env.COLYSEUS_PORT\<close>: a string, or
  \<open>undefined\<close> (\<open>None\<close>) when the variable is not set.\<close>

record proc_env =
  COLYSEUS_INTERNAL_URL :: "string option"
  COLYSEUS_PORT_VAR :: "string option"

text \<open>What \<open>res.data.podId\<close> can be once axios has parsed a JSON body. \<open>JInt i\<close> is a number with
  an integer value of magnitude at most \<open>2^53\<close> (a safe integer, which JavaScript prints as
  its exact decimal digits); \<open>JNum s\<close> is any other number, a fraction or a larger value,
  \<open>s\<close> being what its \<open>toString\<close> prints.
  \<open>JObj r\<close> is an array or object and \<open>r\<close> what calling its \<open>toString\<close> does: \<open>Some s\<close> returns
  \<open>s\<close>, \<open>None\<close> throws a TypeError (an own JSON property named \<open>toString\<close> is not callable).\<close>

datatype js_val =
    JUndefined | JNull | JBool bool | JInt int | JNum string | JStr string
  | JObj "string option"

text \<open>\<open>res.data\<close>: \<open>NoData\<close> is \<open>null\<close> or \<open>undefined\<close>; \<open>Data v\<close> is any other value, \<open>v\<close> being what
  \<open>res.data.podId\<close> evaluates to (\<open>JUndefined\<close> when there is no such field).\<close>

datatype resp_data = NoData | Data js_val

text \<open>The promise of \<open>axios.get\<close>: rejected (timeout, connection error, error status) or
  fulfilled with a response.\<close>

datatype probe_outcome = GetFailed | Replied resp_data

text \<open>The promise of \<open>dns.resolve4\<close> / \<open>dns.resolve6\<close> for a host name.\<close>

datatype dns_outcome = DnsRejected | DnsResolved "ip_addr list"

text \<open>What is thrown: a TypeError, the rejection of \<open>axios.get\<close>, the \<open>Error\<close> of line 171, and
  what \<open>url.parse\<close> throws on a request target it refuses.\<close>

datatype js_exn = TypeError | AxiosError | PodIdMissing | UrlError

record world =
  resolve4 :: "string \<Rightarrow> dns_outcome"
  resolve6 :: "string \<Rightarrow> dns_outcome"
  http_get :: "string \<Rightarrow> nat \<Rightarrow> probe_outcome"
  now_lookup :: int
  now_store :: int

datatype event =
    Resolve4 "string option"
  | Resolve6 "string option"
  | HttpGet string nat
  | CacheSet string cache_entry

text \<open>One settled promise of \<open>Promise.allSettled\<close>.\<close>

datatype 'a settled = Fulfilled 'a | Rejected js_exn

text \<open>The \<open>{ ip, podId }\<close> object of the full variant; \<open>podId\<close> is a string or \<open>undefined\<close>.\<close>

record pod_info =
  pod_ip :: ip_addr
  pod_id :: "string option"

text \<open>The \<open>{ ip, podId }\<close> object of the minimal variant: \<open>podId\<close> is the raw field.\<close>

record raw_pod_info =
  raw_ip :: ip_addr
  raw_id :: js_val

section \<open>JavaScript primitives the code uses\<close>

text \<open>\<open>[...new Set(xs)]\<close>: the elements in the order of their first occurrence.\<close>

fun set_order :: "'a list \<Rightarrow> 'a list \<Rightarrow> 'a list" where
  "set_order seen [] = []"
| "set_order seen (x # xs) =
     (if x \<in> set seen then set_order seen xs else x # set_order (seen @ [x]) xs)"

definition spread_set :: "'a list \<Rightarrow> 'a list" where
  "spread_set xs = set_order [] xs"

text \<open>\<open>s.split(c)\<close> for a one-character separator: never empty.\<close>

fun js_split :: "char \<Rightarrow> string \<Rightarrow> string list" where
  "js_split c [] = [[]]"
| "js_split c (x # xs) =
     (if x = c then [] # js_split c xs
      else (case js_split c xs of [] \<Rightarrow> [[x]] | h # t \<Rightarrow> (x # h) # t))"

text \<open>\<open>s.includes(':')\<close>.\<close>

definition includes_colon :: "string \<Rightarrow> bool" where
  "includes_colon s = (CHR '':'' \<in> set s)"

fun dec_digits :: "nat \<Rightarrow> string" where
  "dec_digits n =
     (if n < 10 then [''0123456789'' ! n]
      else dec_digits (n div 10) @ [''0123456789'' ! (n mod 10)])"

definition int_toString :: "int \<Rightarrow> string" where
  "int_toString i = (if i < 0 then CHR ''-'' # dec_digits (nat (- i)) else dec_digits (nat i))"

text \<open>\<open>v?.toString()\<close>: \<open>undefined\<close> (\<open>Inr None\<close>) on \<open>null\<close> and \<open>undefined\<close>, otherwise the call of
  \<open>toString\<close>, which may throw.\<close>

fun opt_toString :: "js_val \<Rightarrow> js_exn + string option" where
  "opt_toString JUndefined = Inr None"
| "opt_toString JNull = Inr None"
| "opt_toString (JBool b) = Inr (Some (if b then ''true'' else ''false''))"
| "opt_toString (JInt i) = Inr (Some (int_toString i))"
| "opt_toString (JNum s) = Inr (Some s)"
| "opt_toString (JStr s) = Inr (Some s)"
| "opt_toString (JObj None) = Inl TypeError"
| "opt_toString (JObj (Some s)) = Inr (Some s)"

text \<open>The resolver (\<open>dns.promises\<close>) checks its argument before it returns a promise: called
  with \<open>undefined\<close> it throws at once (\<open>Inl\<close>), and no \<open>.catch\<close> on the promise sees that.
  \<open>.catch(() => [])\<close> turns a rejected promise into the empty list.\<close>

definition call_resolve4 :: "world \<Rightarrow> string option \<Rightarrow> js_exn + dns_outcome" where
  "call_resolve4 w host = (case host of None \<Rightarrow> Inl TypeError | Some h \<Rightarrow> Inr (resolve4 w h))"

definition call_resolve6 :: "world \<Rightarrow> string option \<Rightarrow> js_exn + dns_outcome" where
  "call_resolve6 w host = (case host of None \<Rightarrow> Inl TypeError | Some h \<Rightarrow> Inr (resolve6 w h))"

definition catch_empty :: "dns_outcome \<Rightarrow> ip_addr list" where
  "catch_empty d = (case d of DnsRejected \<Rightarrow> [] | DnsResolved ips \<Rightarrow> ips)"

section \<open>The full variant\<close>

text \<open>\<open>COLYSEUS_PORT = process.env.COLYSEUS_PORT || 2567\<close>, as a template prints it.\<close>

definition COLYSEUS_PORT :: "proc_env \<Rightarrow> string" where
  "COLYSEUS_PORT pe =
     (case COLYSEUS_PORT_VAR pe of None \<Rightarrow> ''2567'' | Some p \<Rightarrow> if p = [] then ''2567'' else p)"

text \<open>\<open>ip.includes(':') ? `[${ip}]` : ip\<close>.\<close>

definition bracketed :: "ip_addr \<Rightarrow> string" where
  "bracketed ip = (if includes_colon ip then ''['' @ ip @ '']'' else ip)"

text \<open>The probe target of lines 122 and 166.\<close>

definition podid_url :: "proc_env \<Rightarrow> ip_addr \<Rightarrow> string" where
  "podid_url pe ip = ''http://'' @ bracketed ip @ '':'' @ COLYSEUS_PORT pe @ ''/podid''"

text \<open>The \<open>try\<close> block of lines 103-109 and 148-154: both resolver calls are made, in this
  order, before \<open>Promise.all\<close> waits; a throw of the first call skips the second.\<close>

definition resolve_all :: "proc_env \<Rightarrow> world \<Rightarrow> (js_exn + ip_addr list) \<times> event list" where
  "resolve_all pe w =
     (let host = COLYSEUS_INTERNAL_URL pe in
      case call_resolve4 w host of
        Inl e \<Rightarrow> (Inl e, [Resolve4 host])
      | Inr p4 \<Rightarrow>
          (case call_resolve6 w host of
             Inl e \<Rightarrow> (Inl e, [Resolve4 host, Resolve6 host])
           | Inr p6 \<Rightarrow>
               (Inr (spread_set (catch_empty p4 @ catch_empty p6)),
                [Resolve4 host, Resolve6 host])))"

text \<open>The body of the async function of lines 121-130, before its \<open>catch\<close>.\<close>

definition probe_body :: "proc_env \<Rightarrow> world \<Rightarrow> ip_addr \<Rightarrow> js_exn + pod_info" where
  "probe_body pe w ip =
     (case http_get w (podid_url pe ip) 3000 of
        GetFailed \<Rightarrow> Inl AxiosError
      | Replied NoData \<Rightarrow> Inl TypeError
      | Replied (Data v) \<Rightarrow>
          (case opt_toString v of
             Inl e \<Rightarrow> Inl e
           | Inr s \<Rightarrow> Inr \<lparr>pod_ip = ip, pod_id = s\<rparr>))"

text \<open>The async function with its \<open>catch\<close>: it returns \<open>null\<close> (\<open>None\<close>) on any throw, so its
  promise is always fulfilled.\<close>

definition probe :: "proc_env \<Rightarrow> world \<Rightarrow> ip_addr \<Rightarrow> pod_info option settled" where
  "probe pe w ip = (case probe_body pe w ip of Inl e \<Rightarrow> Fulfilled None | Inr v \<Rightarrow> Fulfilled (Some v))"

text \<open>The literal \<open>18_000\<close> of line 136, in milliseconds.\<close>

definition discover_ttl :: int where
  "discover_ttl = 18000"

text \<open>The loop of lines 133-140 and the final \<open>return null\<close>. The result is the returned
  value (\<open>None\<close> is \<open>null\<close>), the cache and the cache writes made.\<close>

fun match_loop ::
    "world \<Rightarrow> pod_cache \<Rightarrow> string \<Rightarrow> pod_info option settled list
      \<Rightarrow> ip_addr option \<times> pod_cache \<times> event list" where
  "match_loop w cache podId [] = (None, cache, [])"
| "match_loop w cache podId (Fulfilled (Some v) # rest) =
     (if pod_id v = Some podId
      then (let e = \<lparr>cached_ip = pod_ip v, expiresAt = now_store w + discover_ttl\<rparr>
            in (Some (pod_ip v), cache(podId \<mapsto> e), [CacheSet podId e]))
      else match_loop w cache podId rest)"
| "match_loop w cache podId (_ # rest) = match_loop w cache podId rest"

text \<open>Lines 100-143 of \<open>discoverAndGetIp\<close>: what follows a cache miss. The \<open>catch\<close> of line
  110 and the test of line 115 both return \<open>null\<close>.\<close>

definition discover_round ::
    "proc_env \<Rightarrow> world \<Rightarrow> pod_cache \<Rightarrow> string
      \<Rightarrow> (js_exn + ip_addr option) \<times> pod_cache \<times> event list" where
  "discover_round pe w cache podId =
     (case resolve_all pe w of
        (Inl e, ev) \<Rightarrow> (Inr None, cache, ev)
      | (Inr ips, ev) \<Rightarrow>
          if length ips = 0 then (Inr None, cache, ev)
          else (case match_loop w cache podId (map (probe pe w) ips) of
                  (r, cache', ev') \<Rightarrow>
                    (Inr r, cache', ev @ map (\<lambda>ip. HttpGet (podid_url pe ip) 3000) ips @ ev')))"

text \<open>\<open>discoverAndGetIp\<close>, lines 93-144. The first component is what the promise of the
  async function settles to: \<open>Inl\<close> a rejection, \<open>Inr None\<close> the value \<open>null\<close>.\<close>

definition discoverAndGetIp ::
    "proc_env \<Rightarrow> world \<Rightarrow> pod_cache \<Rightarrow> string
      \<Rightarrow> (js_exn + ip_addr option) \<times> pod_cache \<times> event list" where
  "discoverAndGetIp pe w cache podId =
     (case cache podId of
        Some cached \<Rightarrow>
          if expiresAt cached > now_lookup w then (Inr (Some (cached_ip cached)), cache, [])
          else discover_round pe w cache podId
      | None \<Rightarrow> discover_round pe w cache podId)"

text \<open>The async function of lines 165-175: its promise is rejected when the GET fails, when
  \<open>toString\<close> throws, and by the \<open>throw\<close> of line 171 when \<open>!podId\<close> (\<open>undefined\<close> or the empty
  string); \<open>res.data?.podId\<close> is \<open>undefined\<close> when \<open>res.data\<close> is \<open>null\<close> or \<open>undefined\<close>.\<close>

definition health_probe :: "proc_env \<Rightarrow> world \<Rightarrow> ip_addr \<Rightarrow> pod_info settled" where
  "health_probe pe w ip =
     (case http_get w (podid_url pe ip) 2000 of
        GetFailed \<Rightarrow> Rejected AxiosError
      | Replied d \<Rightarrow>
          (case opt_toString (case d of NoData \<Rightarrow> JUndefined | Data v \<Rightarrow> v) of
             Inl e \<Rightarrow> Rejected e
           | Inr None \<Rightarrow> Rejected PodIdMissing
           | Inr (Some s) \<Rightarrow>
               if s = [] then Rejected PodIdMissing
               else Fulfilled \<lparr>pod_ip = ip, pod_id = Some s\<rparr>))"

text \<open>\<open>results.filter(r => r.status === 'rejected')\<close> and
  \<open>results.filter(r => r.status === 'fulfilled').map(r => r.value)\<close>.\<close>

fun is_rejected :: "'a settled \<Rightarrow> bool" where
  "is_rejected (Rejected e) = True"
| "is_rejected (Fulfilled v) = False"

fun fulfilled_values :: "'a settled list \<Rightarrow> 'a list" where
  "fulfilled_values [] = []"
| "fulfilled_values (Fulfilled v # rs) = v # fulfilled_values rs"
| "fulfilled_values (Rejected e # rs) = fulfilled_values rs"

text \<open>The object \<open>checkAllPodsHavePodId\<close> returns: \<open>{ ok: true, pods }\<close>, or
  \<open>{ ok: false, reason }\<close> with the field \<open>success\<close> present or not.\<close>

datatype health = Healthy "pod_info list" | Unhealthy string "pod_info list option"

definition checkAllPodsHavePodId :: "proc_env \<Rightarrow> world \<Rightarrow> health \<times> event list" where
  "checkAllPodsHavePodId pe w =
     (case resolve_all pe w of
        (Inl e, ev) \<Rightarrow> (Unhealthy ''dns_error'' None, ev)
      | (Inr ips, ev) \<Rightarrow>
          if length ips = 0 then (Unhealthy ''no_ips'' None, ev)
          else (let results = map (health_probe pe w) ips;
                    failed = filter is_rejected results;
                    success = fulfilled_values results
                in (if length failed > 0 then Unhealthy ''some_pods_unhealthy'' (Some success)
                    else Healthy success,
                    ev @ map (\<lambda>ip. HttpGet (podid_url pe ip) 2000) ips)))"

subsection \<open>The handlers of the full variant\<close>

record request =
  req_method :: string
  req_url :: string

text \<open>A response body: plain text, or the JSON of the health endpoint (\<open>status\<close>, \<open>reason\<close>
  when present, \<open>pods\<close>).\<close>

datatype body = Text string | HealthJson string "string option" "pod_info list"

text \<open>What a request handler does with the response: \<open>res.end\<close> after \<open>res.writeHead(status)\<close>
  (\<open>None\<close> when \<open>writeHead\<close> is not called), the hand-off \<open>proxy.web\<close> to a target, or nothing,
  when the promise of the async handler is rejected.\<close>

datatype http_result = Ended "nat option" body | ProxyWeb string | Unhandled js_exn

text \<open>What an upgrade handler does with the socket: \<open>socket.destroy()\<close>, or the hand-off
  \<open>proxy.ws\<close> to a target, with the \<open>host\<close> header it has set, if any.\<close>

datatype ws_result = Destroyed | ProxyWs string "string option" | WsUnhandled js_exn

text \<open>The status line a client reads: a response ended with no \<open>writeHead\<close> carries the
  default \<open>statusCode\<close> of Node's \<open>ServerResponse\<close>, 200.\<close>

fun status_sent :: "http_result \<Rightarrow> nat option" where
  "status_sent (Ended None b) = Some 200"
| "status_sent (Ended (Some st) b) = Some st"
| "status_sent (ProxyWeb t) = None"
| "status_sent (Unhandled e) = None"

text \<open>\<open>!x\<close> for a value that is a string, \<open>null\<close> or \<open>undefined\<close>.\<close>

fun falsy :: "string option \<Rightarrow> bool" where
  "falsy None = True"
| "falsy (Some s) = (s = [])"

text \<open>Lines 222-224 and 259-261. \<open>pathname\<close> stands for \<open>url.parse(u).pathname\<close> of Node's
  \<open>url\<close> module, a parameter of the model: \<open>Inl e\<close> when \<open>url.parse\<close> throws \<open>e\<close> on the
  request target, \<open>Inr None\<close> when the pathname is \<open>null\<close>. The call stands in no \<open>try\<close>, so a
  throw passes through to the handler.\<close>

definition path_podId ::
    "(string \<Rightarrow> js_exn + string option) \<Rightarrow> string \<Rightarrow> js_exn + string option" where
  "path_podId pathname u =
     (case pathname u of
        Inl e \<Rightarrow> Inl e
      | Inr parsed \<Rightarrow>
          (let pathParts = (case parsed of
                              None \<Rightarrow> []
                            | Some p \<Rightarrow> filter (\<lambda>seg. seg \<noteq> []) (js_split CHR ''/'' p))
           in Inr (case pathParts of [] \<Rightarrow> None | seg # _ \<Rightarrow> Some seg)))"

text \<open>Lines 221-254 of the request handler: the routing by podId. A throw of \<open>url.parse\<close>
  rejects the promise of the handler before anything is sent or called.\<close>

definition route_http ::
    "proc_env \<Rightarrow> (string \<Rightarrow> js_exn + string option) \<Rightarrow> world \<Rightarrow> pod_cache \<Rightarrow> request
      \<Rightarrow> http_result \<times> pod_cache \<times> event list" where
  "route_http pe pathname w cache req =
     (case path_podId pathname (req_url req) of
        Inl e \<Rightarrow> (Unhandled e, cache, [])
      | Inr None \<Rightarrow>
          (Ended (Some 400) (Text ''Bad Request: podId missing in path''), cache, [])
      | Inr (Some podId) \<Rightarrow>
          if podId = [] then
            (Ended (Some 400) (Text ''Bad Request: podId missing in path''), cache, [])
          else
            (case discoverAndGetIp pe w cache podId of
               (Inl e, cache', ev) \<Rightarrow> (Unhandled e, cache', ev)
             | (Inr targetIp, cache', ev) \<Rightarrow>
                 (case targetIp of
                    None \<Rightarrow>
                      (Ended (Some 504) (Text ''Pod not found or all replicas unhealthy''),
                       cache', ev)
                  | Some tip \<Rightarrow>
                      if tip = [] then
                        (Ended (Some 504) (Text ''Pod not found or all replicas unhealthy''),
                         cache', ev)
                      else
                        (ProxyWeb (''http://'' @ bracketed tip @ '':'' @ COLYSEUS_PORT pe),
                         cache', ev))))"

text \<open>The request handler, lines 200-255.\<close>

definition http_handler ::
    "proc_env \<Rightarrow> (string \<Rightarrow> js_exn + string option) \<Rightarrow> world \<Rightarrow> pod_cache \<Rightarrow> request
      \<Rightarrow> http_result \<times> pod_cache \<times> event list" where
  "http_handler pe pathname w cache req =
     (if req_method req = ''GET'' \<and> req_url req = ''/health'' then
        (case checkAllPodsHavePodId pe w of
           (Healthy pods, ev) \<Rightarrow> (Ended (Some 200) (HealthJson ''ok'' None pods), cache, ev)
         | (Unhealthy reason success, ev) \<Rightarrow>
             (Ended (Some 503)
                (HealthJson ''unhealthy'' (Some reason)
                   (case success of None \<Rightarrow> [] | Some ps \<Rightarrow> ps)),
              cache, ev))
      else route_http pe pathname w cache req)"

text \<open>The upgrade handler, lines 257-289.\<close>

definition upgrade_handler ::
    "proc_env \<Rightarrow> (string \<Rightarrow> js_exn + string option) \<Rightarrow> world \<Rightarrow> pod_cache \<Rightarrow> request
      \<Rightarrow> ws_result \<times> pod_cache \<times> event list" where
  "upgrade_handler pe pathname w cache req =
     (case path_podId pathname (req_url req) of
        Inl e \<Rightarrow> (WsUnhandled e, cache, [])
      | Inr None \<Rightarrow> (Destroyed, cache, [])
      | Inr (Some podId) \<Rightarrow>
          if podId = [] then (Destroyed, cache, [])
          else
            (case discoverAndGetIp pe w cache podId of
               (Inl e, cache', ev) \<Rightarrow> (WsUnhandled e, cache', ev)
             | (Inr targetIp, cache', ev) \<Rightarrow>
                 (case targetIp of
                    None \<Rightarrow> (Destroyed, cache', ev)
                  | Some tip \<Rightarrow>
                      if tip = [] then (Destroyed, cache', ev)
                      else
                        (ProxyWs (''ws://'' @ bracketed tip @ '':'' @ COLYSEUS_PORT pe)
                           (Some (if includes_colon tip
                                  then ''['' @ tip @ '']:'' @ COLYSEUS_PORT pe
                                  else tip @ '':'' @ COLYSEUS_PORT pe)),
                         cache', ev))))"

section \<open>The minimal variant\<close>

text \<open>The probe target of line 25: the address goes into the template as it is.\<close>

definition min_podid_url :: "proc_env \<Rightarrow> ip_addr \<Rightarrow> string" where
  "min_podid_url pe ip = ''http://'' @ ip @ '':'' @ COLYSEUS_PORT pe @ ''/podid''"

text \<open>Lines 25-27: \<open>.then\<close> reads \<open>res.data.podId\<close>, a TypeError when \<open>res.data\<close> is \<open>null\<close> or
  \<open>undefined\<close>; \<open>.catch(() => null)\<close> follows.\<close>

definition min_probe_then :: "proc_env \<Rightarrow> world \<Rightarrow> ip_addr \<Rightarrow> js_exn + raw_pod_info" where
  "min_probe_then pe w ip =
     (case http_get w (min_podid_url pe ip) 2500 of
        GetFailed \<Rightarrow> Inl AxiosError
      | Replied NoData \<Rightarrow> Inl TypeError
      | Replied (Data v) \<Rightarrow> Inr \<lparr>raw_ip = ip, raw_id = v\<rparr>)"

definition min_probe :: "proc_env \<Rightarrow> world \<Rightarrow> ip_addr \<Rightarrow> raw_pod_info option settled" where
  "min_probe pe w ip =
     (case min_probe_then pe w ip of Inl e \<Rightarrow> Fulfilled None | Inr v \<Rightarrow> Fulfilled (Some v))"

text \<open>The literal \<open>15_000\<close> of line 35, in milliseconds.\<close>

definition min_ttl :: int where
  "min_ttl = 15000"

text \<open>The loop of lines 31-38 and \<open>return null\<close>; \<open>===\<close> against the string \<open>podId\<close> holds for
  that very string only.\<close>

fun min_match_loop ::
    "world \<Rightarrow> pod_cache \<Rightarrow> string \<Rightarrow> raw_pod_info option settled list
      \<Rightarrow> ip_addr option \<times> pod_cache \<times> event list" where
  "min_match_loop w cache podId [] = (None, cache, [])"
| "min_match_loop w cache podId (Fulfilled (Some v) # rest) =
     (if raw_id v = JStr podId
      then (let e = \<lparr>cached_ip = raw_ip v, expiresAt = now_store w + min_ttl\<rparr>
            in (Some (raw_ip v), cache(podId \<mapsto> e), [CacheSet podId e]))
      else min_match_loop w cache podId rest)"
| "min_match_loop w cache podId (_ # rest) = min_match_loop w cache podId rest"

text \<open>Lines 19-40 of \<open>getIpForPod\<close>: what follows a cache miss. The resolver calls stand in no
  \<open>try\<close>: a throw of either rejects the promise of \<open>getIpForPod\<close>.\<close>

definition min_round ::
    "proc_env \<Rightarrow> world \<Rightarrow> pod_cache \<Rightarrow> string
      \<Rightarrow> (js_exn + ip_addr option) \<times> pod_cache \<times> event list" where
  "min_round pe w cache podId =
     (let host = COLYSEUS_INTERNAL_URL pe in
      case call_resolve4 w host of
        Inl e \<Rightarrow> (Inl e, cache, [Resolve4 host])
      | Inr p4 \<Rightarrow>
          (case call_resolve6 w host of
             Inl e \<Rightarrow> (Inl e, cache, [Resolve4 host, Resolve6 host])
           | Inr p6 \<Rightarrow>
               (let allIps = spread_set (catch_empty p4 @ catch_empty p6)
                in case min_match_loop w cache podId (map (min_probe pe w) allIps) of
                     (r, cache', ev') \<Rightarrow>
                       (Inr r, cache',
                        [Resolve4 host, Resolve6 host]
                          @ map (\<lambda>ip. HttpGet (min_podid_url pe ip) 2500) allIps @ ev'))))"

text \<open>\<open>getIpForPod\<close>, lines 13-41.\<close>

definition getIpForPod ::
    "proc_env \<Rightarrow> world \<Rightarrow> pod_cache \<Rightarrow> string
      \<Rightarrow> (js_exn + ip_addr option) \<times> pod_cache \<times> event list" where
  "getIpForPod pe w cache podId =
     (case cache podId of
        Some cached \<Rightarrow>
          if expiresAt cached > now_lookup w then (Inr (Some (cached_ip cached)), cache, [])
          else min_round pe w cache podId
      | None \<Rightarrow> min_round pe w cache podId)"

text \<open>\<open>req.url.split('/')[1]\<close>: \<open>undefined\<close> when the array has one element.\<close>

definition min_podId :: "string \<Rightarrow> string option" where
  "min_podId u = (case js_split CHR ''/'' u of a # b # _ \<Rightarrow> Some b | _ \<Rightarrow> None)"

text \<open>The request handler of the minimal variant, lines 43-57.\<close>

definition min_http_handler ::
    "proc_env \<Rightarrow> world \<Rightarrow> pod_cache \<Rightarrow> request \<Rightarrow> http_result \<times> pod_cache \<times> event list" where
  "min_http_handler pe w cache req =
     (let podId = min_podId (req_url req) in
      if falsy podId then (Ended None (Text ''Bad request''), cache, [])
      else
        (case getIpForPod pe w cache (case podId of None \<Rightarrow> [] | Some p \<Rightarrow> p) of
           (Inl e, cache', ev) \<Rightarrow> (Unhandled e, cache', ev)
         | (Inr ip, cache', ev) \<Rightarrow>
             if falsy ip then
               (Ended (Some 404) (Text ''Pod not found or unhealthy''), cache', ev)
             else
               (ProxyWeb (''http://'' @ (case ip of None \<Rightarrow> [] | Some a \<Rightarrow> a) @ '':''
                            @ COLYSEUS_PORT pe),
                cache', ev)))"

text \<open>The upgrade handler of the minimal variant, lines 59-69.\<close>

definition min_upgrade_handler ::
    "proc_env \<Rightarrow> world \<Rightarrow> pod_cache \<Rightarrow> request \<Rightarrow> ws_result \<times> pod_cache \<times> event list" where
  "min_upgrade_handler pe w cache req =
     (let podId = min_podId (req_url req) in
      if falsy podId then (Destroyed, cache, [])
      else
        (case getIpForPod pe w cache (case podId of None \<Rightarrow> [] | Some p \<Rightarrow> p) of
           (Inl e, cache', ev) \<Rightarrow> (WsUnhandled e, cache', ev)
         | (Inr ip, cache', ev) \<Rightarrow>
             if falsy ip then (Destroyed, cache', ev)
             else
               (ProxyWs (''ws://'' @ (case ip of None \<Rightarrow> [] | Some a \<Rightarrow> a) @ '':''
                           @ COLYSEUS_PORT pe) None,
                cache', ev)))"

section \<open>Notions the properties are stated with\<close>

text \<open>The entry for \<open>podId\<close> is present and not expired at the time of the lookup: the test of
  lines 15 and 95.\<close>

definition cache_valid :: "world \<Rightarrow> pod_cache \<Rightarrow> string \<Rightarrow> bool" where
  "cache_valid w cache podId =
     (case cache podId of None \<Rightarrow> False | Some e \<Rightarrow> now_lookup w < expiresAt e)"

text \<open>The candidate addresses of a round: the deduplicated union the code computes from the
  two resolver answers; none when no host name is configured.\<close>

definition candidates :: "proc_env \<Rightarrow> world \<Rightarrow> ip_addr list" where
  "candidates pe w =
     (case COLYSEUS_INTERNAL_URL pe of
        None \<Rightarrow> []
      | Some h \<Rightarrow> spread_set (catch_empty (resolve4 w h) @ catch_empty (resolve6 w h)))"

fun is_CacheSet :: "event \<Rightarrow> bool" where
  "is_CacheSet (CacheSet k e) = True"
| "is_CacheSet _ = False"

text \<open>The test of the loop, line 134: a fulfilled result with a value whose \<open>podId\<close> is the
  target. Line 32 makes the same test on the raw field.\<close>

fun matches :: "string \<Rightarrow> pod_info option settled \<Rightarrow> bool" where
  "matches podId (Fulfilled (Some v)) = (pod_id v = Some podId)"
| "matches podId _ = False"

fun min_matches :: "string \<Rightarrow> raw_pod_info option settled \<Rightarrow> bool" where
  "min_matches podId (Fulfilled (Some v)) = (raw_id v = JStr podId)"
| "min_matches podId _ = False"

text \<open>The probe of candidate \<open>ip\<close> reports the identity \<open>podId\<close>.\<close>

definition reports :: "proc_env \<Rightarrow> world \<Rightarrow> ip_addr \<Rightarrow> string \<Rightarrow> bool" where
  "reports pe w ip podId = matches podId (probe pe w ip)"

definition min_reports :: "proc_env \<Rightarrow> world \<Rightarrow> ip_addr \<Rightarrow> string \<Rightarrow> bool" where
  "min_reports pe w ip podId = min_matches podId (min_probe pe w ip)"

section \<open>A concrete deployment\<close>

text \<open>Three replicas behind one host name, all on IPv4; \<open>10.0.0.2\<close> and \<open>10.0.0.3\<close> both
  claim the identity \<open>beta\<close>. The IPv6 lookup is rejected.\<close>

definition ex_pe :: proc_env where
  "ex_pe = \<lparr>COLYSEUS_INTERNAL_URL = Some ''colyseus.internal'', COLYSEUS_PORT_VAR = None\<rparr>"

definition ex_get :: "string \<Rightarrow> nat \<Rightarrow> probe_outcome" where
  "ex_get u t =
     (if u = ''http://10.0.0.1:2567/podid'' then Replied (Data (JStr ''alpha''))
      else if u = ''http://10.0.0.2:2567/podid'' then Replied (Data (JStr ''beta''))
      else if u = ''http://10.0.0.3:2567/podid'' then Replied (Data (JStr ''beta''))
      else GetFailed)"

definition ex_world :: world where
  "ex_world =
     \<lparr>resolve4 = (\<lambda>h. DnsResolved [''10.0.0.1'', ''10.0.0.2'', ''10.0.0.3'']),
      resolve6 = (\<lambda>h. DnsRejected),
      http_get = ex_get, now_lookup = 1000, now_store = 1200\<rparr>"

definition ex_cache :: pod_cache where
  "ex_cache = [''beta'' \<mapsto> \<lparr>cached_ip = ''10.0.0.2'', expiresAt = 1001\<rparr>]"

text \<open>A cache whose only entry expires at the very time of the lookup.\<close>

definition ex_stale :: pod_cache where
  "ex_stale = [''gamma'' \<mapsto> \<lparr>cached_ip = ''10.0.0.9'', expiresAt = 1000\<rparr>]"

text \<open>Five replicas on IPv6 that answer the probe in five ways: no answer, a body that is
  \<open>null\<close>, a \<open>podId\<close> whose \<open>toString\<close> is not callable, no \<open>podId\<close> field, the number 7.\<close>

definition ex_bad_get :: "string \<Rightarrow> nat \<Rightarrow> probe_outcome" where
  "ex_bad_get u t =
     (if u = ''http://[fd12::2]:2567/podid'' \<or> u = ''http://fd12::2:2567/podid''
        then Replied NoData
      else if u = ''http://[fd12::3]:2567/podid'' \<or> u = ''http://fd12::3:2567/podid''
        then Replied (Data (JObj None))
      else if u = ''http://[fd12::4]:2567/podid'' \<or> u = ''http://fd12::4:2567/podid''
        then Replied (Data JUndefined)
      else if u = ''http://[fd12::5]:2567/podid'' \<or> u = ''http://fd12::5:2567/podid''
        then Replied (Data (JInt 7))
      else GetFailed)"

definition ex_bad :: world where
  "ex_bad =
     \<lparr>resolve4 = (\<lambda>h. DnsRejected),
      resolve6 = (\<lambda>h. DnsResolved [''fd12::1'', ''fd12::2'', ''fd12::3'', ''fd12::4'', ''fd12::5'']),
      http_get = ex_bad_get, now_lookup = 1000, now_store = 1200\<rparr>"

section \<open>Notions of the health check\<close>

text \<open>The health probe of candidate \<open>ip\<close> yields an identity: its promise is fulfilled.\<close>

definition identified :: "proc_env \<Rightarrow> world \<Rightarrow> ip_addr \<Rightarrow> bool" where
  "identified pe w ip = (\<not> is_rejected (health_probe pe w ip))"

fun is_healthy :: "health \<Rightarrow> bool" where
  "is_healthy (Healthy pods) = True"
| "is_healthy (Unhealthy reason success) = False"

section \<open>Notions of the handlers\<close>

text \<open>The answer of lines 236-237.\<close>

definition not_found_504 :: http_result where
  "not_found_504 = Ended (Some 504) (Text ''Pod not found or all replicas unhealthy'')"

text \<open>The response carries the JSON body of the health endpoint.\<close>

fun is_health_answer :: "http_result \<Rightarrow> bool" where
  "is_health_answer (Ended st (HealthJson s r pods)) = True"
| "is_health_answer _ = False"

section \<open>Concrete requests\<close>

text \<open>What \<open>url.parse(u).pathname\<close> is for a request target in origin form (a path, then
  \<open>?query\<close>): the part before the first \<open>?\<close> or \<open>#\<close>, \<open>null\<close> when that part is empty. It is
  used in the examples only; the handlers take the parser as a parameter.\<close>

definition ex_pathname :: "string \<Rightarrow> js_exn + string option" where
  "ex_pathname u =
     (let p = takeWhile (\<lambda>c. c \<noteq> CHR ''?'' \<and> c \<noteq> CHR ''#'') u
      in Inr (if p = [] then None else Some p))"

text \<open>The host name resolves to no address.\<close>

definition ex_empty :: world where
  "ex_empty =
     \<lparr>resolve4 = (\<lambda>h. DnsResolved []), resolve6 = (\<lambda>h. DnsRejected),
      http_get = ex_get, now_lookup = 1000, now_store = 1200\<rparr>"

definition ex_gamma_req :: request where
  "ex_gamma_req = \<lparr>req_method = ''GET'', req_url = ''/gamma/room?x=1''\<rparr>"

definition ex_health_query :: request where
  "ex_health_query = \<lparr>req_method = ''GET'', req_url = ''/health?x=1''\<rparr>"

definition ex_health_post :: request where
  "ex_health_post = \<lparr>req_method = ''POST'', req_url = ''/health''\<rparr>"

section \<open>Lemmas on the loops and on one round\<close>

text \<open>The candidates are a list without repetition of the addresses resolved.\<close>

lemma set_order_set: "set (set_order seen xs) = set xs - set seen"
  by (induction xs arbitrary: seen) auto

lemma set_order_distinct: "distinct (set_order seen xs)"
  by (induction xs arbitrary: seen) (auto simp: set_order_set)

lemma spread_set_dedup: "distinct (spread_set xs) \<and> set (spread_set xs) = set xs"
  by (simp add: spread_set_def set_order_set set_order_distinct)

lemma candidates_distinct: "distinct (candidates pe w)"
  by (simp add: candidates_def spread_set_dedup split: option.splits)

lemma match_loop_none:
  "\<forall>r\<in>set rs. \<not> matches podId r \<Longrightarrow> match_loop w cache podId rs = (None, cache, [])"
  by (induction w cache podId rs rule: match_loop.induct) auto

lemma match_loop_first:
  assumes "\<forall>r\<in>set pre. \<not> matches podId r" and "pod_id v = Some podId"
  shows "match_loop w cache podId (pre @ Fulfilled (Some v) # post) =
           (Some (pod_ip v),
            cache(podId \<mapsto> \<lparr>cached_ip = pod_ip v, expiresAt = now_store w + discover_ttl\<rparr>),
            [CacheSet podId \<lparr>cached_ip = pod_ip v, expiresAt = now_store w + discover_ttl\<rparr>])"
  using assms
proof (induction pre)
  case Nil
  then show ?case by (simp add: Let_def fun_eq_iff)
next
  case (Cons r pre)
  show ?case
  proof (cases r)
    case (Fulfilled x)
    with Cons show ?thesis by (cases x) auto
  next
    case (Rejected e)
    with Cons show ?thesis by auto
  qed
qed

lemma min_match_loop_none:
  "\<forall>r\<in>set rs. \<not> min_matches podId r \<Longrightarrow> min_match_loop w cache podId rs = (None, cache, [])"
  by (induction w cache podId rs rule: min_match_loop.induct) auto

lemma min_match_loop_first:
  assumes "\<forall>r\<in>set pre. \<not> min_matches podId r" and "raw_id v = JStr podId"
  shows "min_match_loop w cache podId (pre @ Fulfilled (Some v) # post) =
           (Some (raw_ip v),
            cache(podId \<mapsto> \<lparr>cached_ip = raw_ip v, expiresAt = now_store w + min_ttl\<rparr>),
            [CacheSet podId \<lparr>cached_ip = raw_ip v, expiresAt = now_store w + min_ttl\<rparr>])"
  using assms
proof (induction pre)
  case Nil
  then show ?case by (simp add: Let_def fun_eq_iff)
next
  case (Cons r pre)
  show ?case
  proof (cases r)
    case (Fulfilled x)
    with Cons show ?thesis by (cases x) auto
  next
    case (Rejected e)
    with Cons show ?thesis by auto
  qed
qed

lemma probe_ip: "probe pe w ip = Fulfilled (Some v) \<Longrightarrow> pod_ip v = ip"
  by (auto simp: probe_def probe_body_def split: probe_outcome.splits resp_data.splits sum.splits)

lemma min_probe_ip: "min_probe pe w ip = Fulfilled (Some v) \<Longrightarrow> raw_ip v = ip"
  by (auto simp: min_probe_def min_probe_then_def split: probe_outcome.splits resp_data.splits sum.splits)

lemma resolve_all_host:
  "COLYSEUS_INTERNAL_URL pe = Some h \<Longrightarrow>
     resolve_all pe w = (Inr (candidates pe w), [Resolve4 (Some h), Resolve6 (Some h)])"
  by (simp add: resolve_all_def candidates_def call_resolve4_def call_resolve6_def Let_def)

lemma resolve_all_no_host:
  "COLYSEUS_INTERNAL_URL pe = None \<Longrightarrow> resolve_all pe w = (Inl TypeError, [Resolve4 None])"
  by (simp add: resolve_all_def call_resolve4_def Let_def)

lemma candidates_host: "candidates pe w \<noteq> [] \<Longrightarrow> \<exists>h. COLYSEUS_INTERNAL_URL pe = Some h"
  by (cases "COLYSEUS_INTERNAL_URL pe") (auto simp: candidates_def)

lemma discover_miss:
  "\<not> cache_valid w cache podId \<Longrightarrow> discoverAndGetIp pe w cache podId = discover_round pe w cache podId"
  by (auto simp: cache_valid_def discoverAndGetIp_def split: option.splits)

lemma getIp_miss:
  "\<not> cache_valid w cache podId \<Longrightarrow> getIpForPod pe w cache podId = min_round pe w cache podId"
  by (auto simp: cache_valid_def getIpForPod_def split: option.splits)

lemma reports_probe:
  assumes "reports pe w ip podId"
  shows "\<exists>v. probe pe w ip = Fulfilled (Some v) \<and> pod_id v = Some podId \<and> pod_ip v = ip"
proof (cases "probe pe w ip")
  case (Fulfilled x)
  with assms show ?thesis by (cases x) (auto simp: reports_def dest: probe_ip)
next
  case (Rejected e)
  with assms show ?thesis by (simp add: reports_def)
qed

lemma min_reports_probe:
  assumes "min_reports pe w ip podId"
  shows "\<exists>v. min_probe pe w ip = Fulfilled (Some v) \<and> raw_id v = JStr podId \<and> raw_ip v = ip"
proof (cases "min_probe pe w ip")
  case (Fulfilled x)
  with assms show ?thesis by (cases x) (auto simp: min_reports_def dest: min_probe_ip)
next
  case (Rejected e)
  with assms show ?thesis by (simp add: min_reports_def)
qed

text \<open>What \<open>reports\<close> says of the answer to the probe: the full variant compares what
  \<open>toString\<close> prints, the minimal variant the field itself, which must be that string.\<close>

lemma reports_iff:
  "reports pe w ip podId \<longleftrightarrow>
     (\<exists>v. http_get w (podid_url pe ip) 3000 = Replied (Data v) \<and>
          opt_toString v = Inr (Some podId))"
  by (auto simp: reports_def probe_def probe_body_def
      split: probe_outcome.splits resp_data.splits sum.splits)

lemma min_reports_iff:
  "min_reports pe w ip podId \<longleftrightarrow>
     http_get w (min_podid_url pe ip) 2500 = Replied (Data (JStr podId))"
  by (auto simp: min_reports_def min_probe_def min_probe_then_def
      split: probe_outcome.splits resp_data.splits)

lemma discover_round_first:
  assumes cand: "candidates pe w = pre @ ip # post"
    and pre: "\<forall>a\<in>set pre. \<not> reports pe w a podId"
    and hit: "reports pe w ip podId"
  shows "discover_round pe w cache podId =
           (Inr (Some ip),
            cache(podId \<mapsto> \<lparr>cached_ip = ip, expiresAt = now_store w + discover_ttl\<rparr>),
            [Resolve4 (COLYSEUS_INTERNAL_URL pe), Resolve6 (COLYSEUS_INTERNAL_URL pe)]
              @ map (\<lambda>a. HttpGet (podid_url pe a) 3000) (candidates pe w)
              @ [CacheSet podId \<lparr>cached_ip = ip, expiresAt = now_store w + discover_ttl\<rparr>])"
proof -
  from cand obtain h where h: "COLYSEUS_INTERNAL_URL pe = Some h"
    using candidates_host [of pe w] by auto
  from hit obtain v where v: "probe pe w ip = Fulfilled (Some v)" "pod_id v = Some podId"
      "pod_ip v = ip"
    using reports_probe by blast
  from pre have pre': "\<forall>r\<in>set (map (probe pe w) pre). \<not> matches podId r"
    by (simp add: reports_def)
  have "match_loop w cache podId (map (probe pe w) (candidates pe w)) =
          (Some ip,
           cache(podId \<mapsto> \<lparr>cached_ip = ip, expiresAt = now_store w + discover_ttl\<rparr>),
           [CacheSet podId \<lparr>cached_ip = ip, expiresAt = now_store w + discover_ttl\<rparr>])"
    using match_loop_first [OF pre' v(2), of w cache "map (probe pe w) post"] v(1,3) cand
    by simp
  then show ?thesis
    using cand by (simp add: discover_round_def resolve_all_host [OF h] h)
qed

lemma min_round_first:
  assumes cand: "candidates pe w = pre @ ip # post"
    and pre: "\<forall>a\<in>set pre. \<not> min_reports pe w a podId"
    and hit: "min_reports pe w ip podId"
  shows "min_round pe w cache podId =
           (Inr (Some ip),
            cache(podId \<mapsto> \<lparr>cached_ip = ip, expiresAt = now_store w + min_ttl\<rparr>),
            [Resolve4 (COLYSEUS_INTERNAL_URL pe), Resolve6 (COLYSEUS_INTERNAL_URL pe)]
              @ map (\<lambda>a. HttpGet (min_podid_url pe a) 2500) (candidates pe w)
              @ [CacheSet podId \<lparr>cached_ip = ip, expiresAt = now_store w + min_ttl\<rparr>])"
proof -
  from cand obtain h where h: "COLYSEUS_INTERNAL_URL pe = Some h"
    using candidates_host [of pe w] by auto
  from hit obtain v where v: "min_probe pe w ip = Fulfilled (Some v)" "raw_id v = JStr podId"
      "raw_ip v = ip"
    using min_reports_probe by blast
  from pre have pre': "\<forall>r\<in>set (map (min_probe pe w) pre). \<not> min_matches podId r"
    by (simp add: min_reports_def)
  have cs: "spread_set (catch_empty (resolve4 w h) @ catch_empty (resolve6 w h)) = candidates pe w"
    by (simp add: candidates_def h)
  have "min_match_loop w cache podId (map (min_probe pe w) (candidates pe w)) =
          (Some ip,
           cache(podId \<mapsto> \<lparr>cached_ip = ip, expiresAt = now_store w + min_ttl\<rparr>),
           [CacheSet podId \<lparr>cached_ip = ip, expiresAt = now_store w + min_ttl\<rparr>])"
    using min_match_loop_first [OF pre' v(2), of w cache "map (min_probe pe w) post"] v(1,3) cand
    by simp
  then show ?thesis
    by (simp add: min_round_def h call_resolve4_def call_resolve6_def Let_def cs)
qed

lemma discover_round_none:
  assumes "\<forall>a\<in>set (candidates pe w). \<not> reports pe w a podId"
  shows "\<exists>ev. discover_round pe w cache podId = (Inr None, cache, ev) \<and> (\<forall>e\<in>set ev. \<not> is_CacheSet e)"
proof (cases "COLYSEUS_INTERNAL_URL pe")
  case None
  then show ?thesis by (simp add: discover_round_def resolve_all_no_host)
next
  case (Some h)
  from assms have "\<forall>r\<in>set (map (probe pe w) (candidates pe w)). \<not> matches podId r"
    by (simp add: reports_def)
  then have "match_loop w cache podId (map (probe pe w) (candidates pe w)) = (None, cache, [])"
    by (rule match_loop_none)
  then show ?thesis
    by (auto simp: discover_round_def resolve_all_host [OF Some])
qed

lemma min_round_none:
  assumes "\<forall>a\<in>set (candidates pe w). \<not> min_reports pe w a podId"
    and h: "COLYSEUS_INTERNAL_URL pe = Some h"
  shows "\<exists>ev. min_round pe w cache podId = (Inr None, cache, ev) \<and> (\<forall>e\<in>set ev. \<not> is_CacheSet e)"
proof -
  have cs: "spread_set (catch_empty (resolve4 w h) @ catch_empty (resolve6 w h)) = candidates pe w"
    by (simp add: candidates_def h)
  from assms have "\<forall>r\<in>set (map (min_probe pe w) (candidates pe w)). \<not> min_matches podId r"
    by (simp add: min_reports_def)
  then have "min_match_loop w cache podId (map (min_probe pe w) (candidates pe w)) = (None, cache, [])"
    by (rule min_match_loop_none)
  then show ?thesis
    by (auto simp: min_round_def h call_resolve4_def call_resolve6_def Let_def cs)
qed

lemmas ex_simps = ex_pe_def ex_get_def ex_world_def ex_cache_def candidates_def spread_set_def
  catch_empty_def reports_def min_reports_def probe_def probe_body_def min_probe_def
  min_probe_then_def podid_url_def min_podid_url_def bracketed_def includes_colon_def
  COLYSEUS_PORT_def cache_valid_def

lemma ex_candidates:
  "candidates ex_pe ex_world = [''10.0.0.1'', ''10.0.0.2'', ''10.0.0.3'']"
  by (simp add: ex_simps)

lemma ex_reports:
  "reports ex_pe ex_world ''10.0.0.1'' ''alpha''" "\<not> reports ex_pe ex_world ''10.0.0.2'' ''alpha''"
  "\<not> reports ex_pe ex_world ''10.0.0.3'' ''alpha''"
  "\<not> reports ex_pe ex_world ''10.0.0.1'' ''beta''" "reports ex_pe ex_world ''10.0.0.2'' ''beta''"
  "reports ex_pe ex_world ''10.0.0.3'' ''beta''"
  "\<not> reports ex_pe ex_world ''10.0.0.1'' ''gamma''" "\<not> reports ex_pe ex_world ''10.0.0.2'' ''gamma''"
  "\<not> reports ex_pe ex_world ''10.0.0.3'' ''gamma''"
  by (simp_all add: ex_simps)

lemma ex_min_reports:
  "min_reports ex_pe ex_world ''10.0.0.1'' ''alpha''" "\<not> min_reports ex_pe ex_world ''10.0.0.2'' ''alpha''"
  "\<not> min_reports ex_pe ex_world ''10.0.0.3'' ''alpha''"
  "\<not> min_reports ex_pe ex_world ''10.0.0.1'' ''beta''" "min_reports ex_pe ex_world ''10.0.0.2'' ''beta''"
  "min_reports ex_pe ex_world ''10.0.0.3'' ''beta''"
  "\<not> min_reports ex_pe ex_world ''10.0.0.1'' ''gamma''" "\<not> min_reports ex_pe ex_world ''10.0.0.2'' ''gamma''"
  "\<not> min_reports ex_pe ex_world ''10.0.0.3'' ''gamma''"
  by (simp_all add: ex_simps)

section \<open>The cache: hit and store\<close>

text \<open>
  C1. When the cache holds an entry for \<open>podId\<close> whose \<open>expiresAt\<close> is greater than the current
  time, \<open>discoverAndGetIp\<close> and \<open>getIpForPod\<close> return the cached address, leave the cache as it
  is and issue no call at all: no DNS resolution and no probe.
\<close>

theorem cache_hit_no_io:
  assumes "cache podId = Some e" and "now_lookup w < expiresAt e"
  shows "discoverAndGetIp pe w cache podId = (Inr (Some (cached_ip e)), cache, []) \<and>
         getIpForPod pe w cache podId = (Inr (Some (cached_ip e)), cache, [])"
  using assms by (simp add: discoverAndGetIp_def getIpForPod_def)

theorem cache_hit_no_io_witness:
  "ex_cache ''beta'' = Some \<lparr>cached_ip = ''10.0.0.2'', expiresAt = 1001\<rparr> \<and>
   now_lookup ex_world < 1001 \<and>
   discoverAndGetIp ex_pe ex_world ex_cache ''beta'' = (Inr (Some ''10.0.0.2''), ex_cache, []) \<and>
   getIpForPod ex_pe ex_world ex_cache ''beta'' = (Inr (Some ''10.0.0.2''), ex_cache, [])"
  using cache_hit_no_io [of ex_cache "''beta''" "\<lparr>cached_ip = ''10.0.0.2'', expiresAt = 1001\<rparr>"
      ex_world ex_pe]
  by (simp add: ex_cache_def ex_world_def)

text \<open>
  C4. After a cache miss, when exactly one candidate reports the identity \<open>podId\<close>, discovery
  returns the address of that candidate and stores for \<open>podId\<close> an entry with that address and
  \<open>expiresAt\<close> equal to the time of the store plus the TTL; the TTL is 18 seconds in
  \<open>discoverAndGetIp\<close> and 15 seconds in \<open>getIpForPod\<close>, both between 15 and 20 seconds.
\<close>

theorem unique_match_cached:
  assumes "\<not> cache_valid w cache podId" and "candidates pe w = pre @ ip # post"
  shows "(reports pe w ip podId \<and> (\<forall>a\<in>set (pre @ post). \<not> reports pe w a podId) \<longrightarrow>
            discoverAndGetIp pe w cache podId =
              (Inr (Some ip),
               cache(podId \<mapsto> \<lparr>cached_ip = ip, expiresAt = now_store w + discover_ttl\<rparr>),
               [Resolve4 (COLYSEUS_INTERNAL_URL pe), Resolve6 (COLYSEUS_INTERNAL_URL pe)]
                 @ map (\<lambda>a. HttpGet (podid_url pe a) 3000) (candidates pe w)
                 @ [CacheSet podId \<lparr>cached_ip = ip, expiresAt = now_store w + discover_ttl\<rparr>]))
       \<and> (min_reports pe w ip podId \<and> (\<forall>a\<in>set (pre @ post). \<not> min_reports pe w a podId) \<longrightarrow>
            getIpForPod pe w cache podId =
              (Inr (Some ip),
               cache(podId \<mapsto> \<lparr>cached_ip = ip, expiresAt = now_store w + min_ttl\<rparr>),
               [Resolve4 (COLYSEUS_INTERNAL_URL pe), Resolve6 (COLYSEUS_INTERNAL_URL pe)]
                 @ map (\<lambda>a. HttpGet (min_podid_url pe a) 2500) (candidates pe w)
                 @ [CacheSet podId \<lparr>cached_ip = ip, expiresAt = now_store w + min_ttl\<rparr>]))
       \<and> 15 * 1000 \<le> discover_ttl \<and> discover_ttl \<le> 20 * 1000
       \<and> 15 * 1000 \<le> min_ttl \<and> min_ttl \<le> 20 * 1000"
proof (intro conjI impI)
  assume "reports pe w ip podId \<and> (\<forall>a\<in>set (pre @ post). \<not> reports pe w a podId)"
  then show "discoverAndGetIp pe w cache podId =
      (Inr (Some ip),
       cache(podId \<mapsto> \<lparr>cached_ip = ip, expiresAt = now_store w + discover_ttl\<rparr>),
       [Resolve4 (COLYSEUS_INTERNAL_URL pe), Resolve6 (COLYSEUS_INTERNAL_URL pe)]
         @ map (\<lambda>a. HttpGet (podid_url pe a) 3000) (candidates pe w)
         @ [CacheSet podId \<lparr>cached_ip = ip, expiresAt = now_store w + discover_ttl\<rparr>])"
    using discover_round_first [OF assms(2), of podId cache] discover_miss [OF assms(1)]
    by simp
next
  assume "min_reports pe w ip podId \<and> (\<forall>a\<in>set (pre @ post). \<not> min_reports pe w a podId)"
  then show "getIpForPod pe w cache podId =
      (Inr (Some ip),
       cache(podId \<mapsto> \<lparr>cached_ip = ip, expiresAt = now_store w + min_ttl\<rparr>),
       [Resolve4 (COLYSEUS_INTERNAL_URL pe), Resolve6 (COLYSEUS_INTERNAL_URL pe)]
         @ map (\<lambda>a. HttpGet (min_podid_url pe a) 2500) (candidates pe w)
         @ [CacheSet podId \<lparr>cached_ip = ip, expiresAt = now_store w + min_ttl\<rparr>])"
    using min_round_first [OF assms(2), of podId cache] getIp_miss [OF assms(1)]
    by simp
qed (simp_all add: discover_ttl_def min_ttl_def)

theorem unique_match_cached_witness:
  "\<not> cache_valid ex_world Map.empty ''alpha'' \<and>
   candidates ex_pe ex_world = [] @ ''10.0.0.1'' # [''10.0.0.2'', ''10.0.0.3''] \<and>
   reports ex_pe ex_world ''10.0.0.1'' ''alpha'' \<and>
   min_reports ex_pe ex_world ''10.0.0.1'' ''alpha'' \<and>
   fst (discoverAndGetIp ex_pe ex_world Map.empty ''alpha'') = Inr (Some ''10.0.0.1'') \<and>
   fst (snd (discoverAndGetIp ex_pe ex_world Map.empty ''alpha'')) ''alpha'' =
     Some \<lparr>cached_ip = ''10.0.0.1'', expiresAt = 19200\<rparr> \<and>
   fst (getIpForPod ex_pe ex_world Map.empty ''alpha'') = Inr (Some ''10.0.0.1'') \<and>
   fst (snd (getIpForPod ex_pe ex_world Map.empty ''alpha'')) ''alpha'' =
     Some \<lparr>cached_ip = ''10.0.0.1'', expiresAt = 16200\<rparr>"
proof -
  have m: "\<not> cache_valid ex_world Map.empty ''alpha''"
    by (simp add: cache_valid_def)
  have c: "candidates ex_pe ex_world = [] @ ''10.0.0.1'' # [''10.0.0.2'', ''10.0.0.3'']"
    by (simp add: ex_candidates)
  have n: "now_store ex_world = 1200"
    by (simp add: ex_world_def)
  show ?thesis
    using unique_match_cached [OF m c] m c ex_reports(1-3) ex_min_reports(1-3) n
    by (simp add: discover_ttl_def min_ttl_def)
qed

subsection \<open>A round never rejects; a round with the host name configured\<close>

lemma discover_round_Inr: "\<exists>r. fst (discover_round pe w cache podId) = Inr r"
  by (auto simp: discover_round_def split: prod.splits sum.splits)

lemma min_round_Inr:
  "COLYSEUS_INTERNAL_URL pe = Some h \<Longrightarrow> \<exists>r. fst (min_round pe w cache podId) = Inr r"
  by (auto simp: min_round_def call_resolve4_def call_resolve6_def Let_def split: prod.splits)

lemma discoverAndGetIp_Inr: "\<exists>r. fst (discoverAndGetIp pe w cache podId) = Inr r"
  using discover_round_Inr [of pe w cache podId]
  by (auto simp: discoverAndGetIp_def split: option.splits)

lemma getIpForPod_Inr:
  "COLYSEUS_INTERNAL_URL pe = Some h \<Longrightarrow> \<exists>r. fst (getIpForPod pe w cache podId) = Inr r"
  using min_round_Inr [of pe h w cache podId]
  by (auto simp: getIpForPod_def split: option.splits)

lemma discover_round_host:
  assumes "COLYSEUS_INTERNAL_URL pe = Some h"
  shows "discover_round pe w cache podId =
     (if candidates pe w = [] then (Inr None, cache, [Resolve4 (Some h), Resolve6 (Some h)])
      else (case match_loop w cache podId (map (probe pe w) (candidates pe w)) of
              (r, cache', ev') \<Rightarrow>
                (Inr r, cache',
                 [Resolve4 (Some h), Resolve6 (Some h)]
                   @ map (\<lambda>ip. HttpGet (podid_url pe ip) 3000) (candidates pe w) @ ev')))"
  by (simp add: discover_round_def resolve_all_host [OF assms])

lemma min_round_host:
  assumes "COLYSEUS_INTERNAL_URL pe = Some h"
  shows "min_round pe w cache podId =
     (case min_match_loop w cache podId (map (min_probe pe w) (candidates pe w)) of
        (r, cache', ev') \<Rightarrow>
          (Inr r, cache',
           [Resolve4 (Some h), Resolve6 (Some h)]
             @ map (\<lambda>ip. HttpGet (min_podid_url pe ip) 2500) (candidates pe w) @ ev'))"
  by (simp add: min_round_def assms call_resolve4_def call_resolve6_def Let_def candidates_def)

lemma ex_host: "COLYSEUS_INTERNAL_URL ex_pe = Some ''colyseus.internal''"
  by (simp add: ex_pe_def)

lemma ex_bad_candidates:
  "candidates ex_pe ex_bad = [''fd12::1'', ''fd12::2'', ''fd12::3'', ''fd12::4'', ''fd12::5'']"
  by (simp add: ex_pe_def ex_bad_def candidates_def spread_set_def catch_empty_def)

lemma ex_bad_probes:
  "probe_body ex_pe ex_bad ''fd12::1'' = Inl AxiosError"
  "probe_body ex_pe ex_bad ''fd12::2'' = Inl TypeError"
  "probe_body ex_pe ex_bad ''fd12::3'' = Inl TypeError"
  "probe_body ex_pe ex_bad ''fd12::4'' = Inr \<lparr>pod_ip = ''fd12::4'', pod_id = None\<rparr>"
  "probe_body ex_pe ex_bad ''fd12::5'' = Inr \<lparr>pod_ip = ''fd12::5'', pod_id = Some ''7''\<rparr>"
  by (simp_all add: probe_body_def ex_pe_def ex_bad_def ex_bad_get_def podid_url_def
      bracketed_def includes_colon_def COLYSEUS_PORT_def int_toString_def)

lemma ex_bad_min_probes:
  "min_probe_then ex_pe ex_bad ''fd12::1'' = Inl AxiosError"
  "min_probe_then ex_pe ex_bad ''fd12::2'' = Inl TypeError"
  "min_probe_then ex_pe ex_bad ''fd12::3'' = Inr \<lparr>raw_ip = ''fd12::3'', raw_id = JObj None\<rparr>"
  "min_probe_then ex_pe ex_bad ''fd12::4'' = Inr \<lparr>raw_ip = ''fd12::4'', raw_id = JUndefined\<rparr>"
  "min_probe_then ex_pe ex_bad ''fd12::5'' = Inr \<lparr>raw_ip = ''fd12::5'', raw_id = JInt 7\<rparr>"
  by (simp_all add: min_probe_then_def ex_pe_def ex_bad_def ex_bad_get_def min_podid_url_def
      COLYSEUS_PORT_def)

lemma ex_bad_rounds:
  "fst (discover_round ex_pe ex_bad Map.empty ''beta'') = Inr None"
  "fst (discover_round ex_pe ex_bad Map.empty ''7'') = Inr (Some ''fd12::5'')"
  "fst (min_round ex_pe ex_bad Map.empty ''7'') = Inr None"
  by (simp_all add: discover_round_host [OF ex_host] min_round_host [OF ex_host]
      ex_bad_candidates probe_def min_probe_def ex_bad_probes ex_bad_min_probes Let_def)

section \<open>The matching rule\<close>

text \<open>
  C5. In every list of probe results the loop returns the address of the first result, in
  the order of the list, that is fulfilled with the target podId, whatever follows it; so
  when several candidates report the target podId, discovery returns the address of the first
  of them in candidate order, as a normal result.
\<close>

theorem first_match_selected:
  assumes "\<not> cache_valid w cache podId" and "candidates pe w = pre @ ip # post"
  shows "(reports pe w ip podId \<and> (\<forall>a\<in>set pre. \<not> reports pe w a podId) \<longrightarrow>
            fst (discoverAndGetIp pe w cache podId) = Inr (Some ip))
       \<and> (min_reports pe w ip podId \<and> (\<forall>a\<in>set pre. \<not> min_reports pe w a podId) \<longrightarrow>
            fst (getIpForPod pe w cache podId) = Inr (Some ip))
       \<and> (\<forall>rs (v::pod_info) rs'. pod_id v = Some podId \<and> (\<forall>r\<in>set rs. \<not> matches podId r) \<longrightarrow>
            fst (match_loop w cache podId (rs @ Fulfilled (Some v) # rs')) = Some (pod_ip v))
       \<and> (\<forall>rs (v::raw_pod_info) rs'. raw_id v = JStr podId \<and> (\<forall>r\<in>set rs. \<not> min_matches podId r) \<longrightarrow>
            fst (min_match_loop w cache podId (rs @ Fulfilled (Some v) # rs')) = Some (raw_ip v))"
proof (intro conjI impI allI)
  assume "reports pe w ip podId \<and> (\<forall>a\<in>set pre. \<not> reports pe w a podId)"
  then show "fst (discoverAndGetIp pe w cache podId) = Inr (Some ip)"
    using discover_round_first [OF assms(2), of podId cache] discover_miss [OF assms(1)]
    by simp
next
  assume "min_reports pe w ip podId \<and> (\<forall>a\<in>set pre. \<not> min_reports pe w a podId)"
  then show "fst (getIpForPod pe w cache podId) = Inr (Some ip)"
    using min_round_first [OF assms(2), of podId cache] getIp_miss [OF assms(1)]
    by simp
next
  fix rs rs' and v :: pod_info
  assume "pod_id v = Some podId \<and> (\<forall>r\<in>set rs. \<not> matches podId r)"
  then show "fst (match_loop w cache podId (rs @ Fulfilled (Some v) # rs')) = Some (pod_ip v)"
    using match_loop_first [of rs podId v w cache rs'] by simp
next
  fix rs rs' and v :: raw_pod_info
  assume "raw_id v = JStr podId \<and> (\<forall>r\<in>set rs. \<not> min_matches podId r)"
  then show "fst (min_match_loop w cache podId (rs @ Fulfilled (Some v) # rs')) = Some (raw_ip v)"
    using min_match_loop_first [of rs podId v w cache rs'] by simp
qed

theorem first_match_selected_witness:
  "\<not> cache_valid ex_world Map.empty ''beta'' \<and>
   candidates ex_pe ex_world = [''10.0.0.1''] @ ''10.0.0.2'' # [''10.0.0.3''] \<and>
   reports ex_pe ex_world ''10.0.0.2'' ''beta'' \<and> reports ex_pe ex_world ''10.0.0.3'' ''beta'' \<and>
   min_reports ex_pe ex_world ''10.0.0.2'' ''beta'' \<and>
   min_reports ex_pe ex_world ''10.0.0.3'' ''beta'' \<and>
   fst (discoverAndGetIp ex_pe ex_world Map.empty ''beta'') = Inr (Some ''10.0.0.2'') \<and>
   fst (getIpForPod ex_pe ex_world Map.empty ''beta'') = Inr (Some ''10.0.0.2'') \<and>
   fst (match_loop ex_world Map.empty ''beta''
          ([Fulfilled None] @ Fulfilled (Some \<lparr>pod_ip = ''10.0.0.2'', pod_id = Some ''beta''\<rparr>)
             # [Fulfilled (Some \<lparr>pod_ip = ''10.0.0.3'', pod_id = Some ''beta''\<rparr>)]))
     = Some ''10.0.0.2''"
proof -
  have m: "\<not> cache_valid ex_world Map.empty ''beta''"
    by (simp add: cache_valid_def)
  have c: "candidates ex_pe ex_world = [''10.0.0.1''] @ ''10.0.0.2'' # [''10.0.0.3'']"
    by (simp add: ex_candidates)
  have l: "pod_id \<lparr>pod_ip = ''10.0.0.2'', pod_id = Some ''beta''\<rparr> = Some ''beta'' \<and>
           (\<forall>r\<in>set [Fulfilled None]. \<not> matches ''beta'' r)"
    by simp
  from first_match_selected [OF m c] have
    a: "reports ex_pe ex_world ''10.0.0.2'' ''beta'' \<and>
          (\<forall>a\<in>set [''10.0.0.1'']. \<not> reports ex_pe ex_world a ''beta'') \<longrightarrow>
        fst (discoverAndGetIp ex_pe ex_world Map.empty ''beta'') = Inr (Some ''10.0.0.2'')"
    and b: "min_reports ex_pe ex_world ''10.0.0.2'' ''beta'' \<and>
          (\<forall>a\<in>set [''10.0.0.1'']. \<not> min_reports ex_pe ex_world a ''beta'') \<longrightarrow>
        fst (getIpForPod ex_pe ex_world Map.empty ''beta'') = Inr (Some ''10.0.0.2'')"
    and d: "\<forall>rs (v::pod_info) rs'. pod_id v = Some ''beta'' \<and> (\<forall>r\<in>set rs. \<not> matches ''beta'' r) \<longrightarrow>
        fst (match_loop ex_world Map.empty ''beta'' (rs @ Fulfilled (Some v) # rs')) = Some (pod_ip v)"
    by blast+
  from d l have "fst (match_loop ex_world Map.empty ''beta''
          ([Fulfilled None] @ Fulfilled (Some \<lparr>pod_ip = ''10.0.0.2'', pod_id = Some ''beta''\<rparr>)
             # [Fulfilled (Some \<lparr>pod_ip = ''10.0.0.3'', pod_id = Some ''beta''\<rparr>)]))
     = Some (pod_ip \<lparr>pod_ip = ''10.0.0.2'', pod_id = Some ''beta''\<rparr>)"
    by blast
  with a b show ?thesis
    using m c ex_reports(4-6) ex_min_reports(4-6) by simp
qed

section \<open>A round without a match\<close>

text \<open>
  C8. After a cache miss, when no candidate of the round reports the identity \<open>podId\<close>,
  discovery returns \<open>null\<close>, the cache after the call is the cache before it, and the call
  has made no cache write. (\<open>getIpForPod\<close>: with the host name configured.)
\<close>

theorem no_match_cache_unchanged:
  assumes "\<not> cache_valid w cache podId"
  shows "((\<forall>a\<in>set (candidates pe w). \<not> reports pe w a podId) \<longrightarrow>
            fst (discoverAndGetIp pe w cache podId) = Inr None \<and>
            fst (snd (discoverAndGetIp pe w cache podId)) = cache \<and>
            (\<forall>e\<in>set (snd (snd (discoverAndGetIp pe w cache podId))). \<not> is_CacheSet e))
       \<and> ((\<forall>a\<in>set (candidates pe w). \<not> min_reports pe w a podId)
             \<and> COLYSEUS_INTERNAL_URL pe \<noteq> None \<longrightarrow>
            fst (getIpForPod pe w cache podId) = Inr None \<and>
            fst (snd (getIpForPod pe w cache podId)) = cache \<and>
            (\<forall>e\<in>set (snd (snd (getIpForPod pe w cache podId))). \<not> is_CacheSet e))"
proof (intro conjI impI)
  assume a: "\<forall>a\<in>set (candidates pe w). \<not> reports pe w a podId"
  from discover_round_none [OF a, of cache] obtain ev where
    "discover_round pe w cache podId = (Inr None, cache, ev)" "\<forall>e\<in>set ev. \<not> is_CacheSet e"
    by blast
  then have "discoverAndGetIp pe w cache podId = (Inr None, cache, ev) \<and> (\<forall>e\<in>set ev. \<not> is_CacheSet e)"
    using discover_miss [OF assms] by simp
  then show "fst (discoverAndGetIp pe w cache podId) = Inr None"
    and "fst (snd (discoverAndGetIp pe w cache podId)) = cache"
    and "\<forall>e\<in>set (snd (snd (discoverAndGetIp pe w cache podId))). \<not> is_CacheSet e"
    by simp_all
next
  assume a: "(\<forall>a\<in>set (candidates pe w). \<not> min_reports pe w a podId)
             \<and> COLYSEUS_INTERNAL_URL pe \<noteq> None"
  then obtain h where h: "COLYSEUS_INTERNAL_URL pe = Some h" by auto
  from a have a': "\<forall>a\<in>set (candidates pe w). \<not> min_reports pe w a podId" by simp
  from min_round_none [OF a' h, of cache] obtain ev where
    "min_round pe w cache podId = (Inr None, cache, ev)" "\<forall>e\<in>set ev. \<not> is_CacheSet e"
    by blast
  then have "getIpForPod pe w cache podId = (Inr None, cache, ev) \<and> (\<forall>e\<in>set ev. \<not> is_CacheSet e)"
    using getIp_miss [OF assms] by simp
  then show "fst (getIpForPod pe w cache podId) = Inr None"
    and "fst (snd (getIpForPod pe w cache podId)) = cache"
    and "\<forall>e\<in>set (snd (snd (getIpForPod pe w cache podId))). \<not> is_CacheSet e"
    by simp_all
qed

theorem no_match_cache_unchanged_witness:
  "\<not> cache_valid ex_world ex_stale ''gamma'' \<and>
   \<not> reports ex_pe ex_world ''10.0.0.1'' ''gamma'' \<and>
   \<not> reports ex_pe ex_world ''10.0.0.2'' ''gamma'' \<and>
   \<not> reports ex_pe ex_world ''10.0.0.3'' ''gamma'' \<and>
   fst (discoverAndGetIp ex_pe ex_world ex_stale ''gamma'') = Inr None \<and>
   fst (snd (discoverAndGetIp ex_pe ex_world ex_stale ''gamma'')) = ex_stale \<and>
   fst (getIpForPod ex_pe ex_world ex_stale ''gamma'') = Inr None \<and>
   fst (snd (getIpForPod ex_pe ex_world ex_stale ''gamma'')) = ex_stale"
proof -
  have m: "\<not> cache_valid ex_world ex_stale ''gamma''"
    by (simp add: cache_valid_def ex_stale_def ex_world_def)
  have h: "COLYSEUS_INTERNAL_URL ex_pe \<noteq> None"
    by (simp add: ex_pe_def)
  show ?thesis
    using no_match_cache_unchanged [OF m, of ex_pe] m h ex_reports(7-9) ex_min_reports(7-9)
    by (simp add: ex_candidates)
qed

section \<open>Failures of the resolver and of the probes\<close>

lemma discover_not_Inl: "discoverAndGetIp pe w cache podId \<noteq> (Inl e, c, ev)"
proof
  assume "discoverAndGetIp pe w cache podId = (Inl e, c, ev)"
  with discoverAndGetIp_Inr [of pe w cache podId] show False by simp
qed

text \<open>The promise of \<open>discoverAndGetIp\<close> and of every probe is fulfilled whatever the
  resolver and the candidates answer, also with no host name configured; the promise of
  \<open>getIpForPod\<close> is fulfilled whenever a host name is configured. A handler of the full
  variant is rejected only by a throw of \<open>url.parse\<close>.\<close>

lemma discovery_fulfilled:
  "(\<exists>r. fst (discoverAndGetIp pe w cache podId) = Inr r) \<and>
   (\<exists>v. probe pe w ip = Fulfilled v) \<and>
   (\<exists>v. min_probe pe w ip = Fulfilled v) \<and>
   (COLYSEUS_INTERNAL_URL pe \<noteq> None \<longrightarrow> (\<exists>r. fst (getIpForPod pe w cache podId) = Inr r))"
proof (intro conjI impI)
  show "\<exists>r. fst (discoverAndGetIp pe w cache podId) = Inr r"
    by (rule discoverAndGetIp_Inr)
  show "\<exists>v. probe pe w ip = Fulfilled v"
    by (simp add: probe_def split: sum.splits)
  show "\<exists>v. min_probe pe w ip = Fulfilled v"
    by (simp add: min_probe_def split: sum.splits)
next
  assume "COLYSEUS_INTERNAL_URL pe \<noteq> None"
  then show "\<exists>r. fst (getIpForPod pe w cache podId) = Inr r"
    using getIpForPod_Inr [of pe _ w cache podId] by auto
qed

lemma ex_bad_discovery:
  "probe ex_pe ex_bad ''fd12::1'' = Fulfilled None"
  "probe ex_pe ex_bad ''fd12::2'' = Fulfilled None"
  "probe ex_pe ex_bad ''fd12::3'' = Fulfilled None"
  "fst (discoverAndGetIp ex_pe ex_bad Map.empty ''7'') = Inr (Some ''fd12::5'')"
  "fst (getIpForPod ex_pe ex_bad Map.empty ''7'') = Inr None"
  by (simp_all add: probe_def ex_bad_probes ex_bad_rounds discoverAndGetIp_def getIpForPod_def)

lemma route_http_rejected:
  "fst (route_http pe pathname w cache req) = Unhandled e \<Longrightarrow> pathname (req_url req) = Inl e"
  by (auto simp: route_http_def path_podId_def discover_not_Inl Let_def
      split: prod.splits sum.splits option.splits if_splits)

lemma http_handler_rejected:
  "fst (http_handler pe pathname w cache req) = Unhandled e \<Longrightarrow> pathname (req_url req) = Inl e"
  using route_http_rejected [of pe pathname w cache req e]
  by (auto simp: http_handler_def split: prod.splits health.splits if_splits)

lemma upgrade_handler_rejected:
  "fst (upgrade_handler pe pathname w cache req) = WsUnhandled e \<Longrightarrow>
     pathname (req_url req) = Inl e"
  by (auto simp: upgrade_handler_def path_podId_def discover_not_Inl Let_def
      split: prod.splits sum.splits option.splits if_splits)

text \<open>
  C9, the minimal variant with \<open>COLYSEUS_INTERNAL_URL\<close> not set: on a cache miss the call of
  \<open>dns.resolve4\<close> throws a TypeError, no \<open>try\<close> stands around it, and the promise of
  \<open>getIpForPod\<close> is rejected with it after that one call; the request handler, which awaits
  it in no \<open>try\<close>, is rejected in turn. \<open>discoverAndGetIp\<close> catches the same throw and returns
  \<open>null\<close>.
\<close>

theorem getIpForPod_unset_host_rejects:
  "getIpForPod \<lparr>COLYSEUS_INTERNAL_URL = None, COLYSEUS_PORT_VAR = pv\<rparr> w Map.empty podId =
     (Inl TypeError, Map.empty, [Resolve4 None]) \<and>
   fst (min_http_handler \<lparr>COLYSEUS_INTERNAL_URL = None, COLYSEUS_PORT_VAR = pv\<rparr> w Map.empty
          \<lparr>req_method = m, req_url = ''/beta''\<rparr>) = Unhandled TypeError \<and>
   fst (min_upgrade_handler \<lparr>COLYSEUS_INTERNAL_URL = None, COLYSEUS_PORT_VAR = pv\<rparr> w Map.empty
          \<lparr>req_method = m, req_url = ''/beta''\<rparr>) = WsUnhandled TypeError \<and>
   discoverAndGetIp \<lparr>COLYSEUS_INTERNAL_URL = None, COLYSEUS_PORT_VAR = pv\<rparr> w Map.empty podId =
     (Inr None, Map.empty, [Resolve4 None])"
  by (simp add: getIpForPod_def min_round_def call_resolve4_def min_http_handler_def
      min_upgrade_handler_def min_podId_def discoverAndGetIp_def discover_round_def
      resolve_all_def)

section \<open>The health check\<close>

lemma health_probe_ip: "health_probe pe w ip = Fulfilled v \<Longrightarrow> pod_ip v = ip"
  by (auto simp: health_probe_def split: probe_outcome.splits sum.splits option.splits if_splits)

lemma health_addresses:
  "map pod_ip (fulfilled_values (map (health_probe pe w) ips)) = filter (identified pe w) ips"
proof (induction ips)
  case Nil
  then show ?case by simp
next
  case (Cons a ips)
  then show ?case
    by (cases "health_probe pe w a") (auto simp: identified_def dest: health_probe_ip)
qed

lemma health_values:
  "p \<in> set (fulfilled_values (map (health_probe pe w) ips)) \<Longrightarrow>
     health_probe pe w (pod_ip p) = Fulfilled p"
proof (induction ips)
  case Nil
  then show ?case by simp
next
  case (Cons a ips)
  then show ?case
    by (cases "health_probe pe w a") (auto dest: health_probe_ip)
qed

lemma health_failed:
  "(filter is_rejected (map (health_probe pe w) ips) = []) = (\<forall>ip\<in>set ips. identified pe w ip)"
  by (induction ips) (auto simp: identified_def)

lemma identified_iff:
  "identified pe w ip \<longleftrightarrow>
     (\<exists>v s. http_get w (podid_url pe ip) 2000 = Replied (Data v) \<and>
            opt_toString v = Inr (Some s) \<and> s \<noteq> [])"
  by (auto simp: identified_def health_probe_def
      split: probe_outcome.splits resp_data.splits sum.splits option.splits)

lemma check_no_host:
  "COLYSEUS_INTERNAL_URL pe = None \<Longrightarrow>
     checkAllPodsHavePodId pe w = (Unhealthy ''dns_error'' None, [Resolve4 None])"
  by (simp add: checkAllPodsHavePodId_def resolve_all_no_host)

lemma check_host:
  assumes "COLYSEUS_INTERNAL_URL pe = Some h"
  shows "fst (checkAllPodsHavePodId pe w) =
     (if candidates pe w = [] then Unhealthy ''no_ips'' None
      else if \<forall>ip\<in>set (candidates pe w). identified pe w ip
      then Healthy (fulfilled_values (map (health_probe pe w) (candidates pe w)))
      else Unhealthy ''some_pods_unhealthy''
             (Some (fulfilled_values (map (health_probe pe w) (candidates pe w)))))"
  using health_failed [of pe w "candidates pe w"]
  by (simp add: checkAllPodsHavePodId_def resolve_all_host [OF assms] Let_def)

lemma ex_world_identified:
  "identified ex_pe ex_world ''10.0.0.1''" "identified ex_pe ex_world ''10.0.0.2''"
  "identified ex_pe ex_world ''10.0.0.3''"
  by (simp_all add: identified_def health_probe_def ex_simps)

lemma ex_bad_identified:
  "\<not> identified ex_pe ex_bad ''fd12::1''" "\<not> identified ex_pe ex_bad ''fd12::2''"
  "\<not> identified ex_pe ex_bad ''fd12::3''" "\<not> identified ex_pe ex_bad ''fd12::4''"
  "identified ex_pe ex_bad ''fd12::5''"
  by (simp_all add: identified_def health_probe_def ex_pe_def ex_bad_def ex_bad_get_def
      podid_url_def bracketed_def includes_colon_def COLYSEUS_PORT_def int_toString_def)

text \<open>
  C2. \<open>checkAllPodsHavePodId\<close> answers \<open>ok\<close> exactly when there is at least one candidate and
  the probe of every candidate yields an identity (a reply whose \<open>podId\<close> prints as a
  non-empty string). Otherwise it answers \<open>ok: false\<close> with one of the reasons \<open>dns_error\<close>
  (the resolver call threw: no host name), \<open>no_ips\<close> (no candidate) and
  \<open>some_pods_unhealthy\<close>, and with the last it carries the list of the candidates whose probe
  succeeded, in candidate order, each with the identity its probe gave.
\<close>

theorem health_ok_iff:
  "(is_healthy (fst (checkAllPodsHavePodId pe w)) \<longleftrightarrow>
      candidates pe w \<noteq> [] \<and> (\<forall>ip\<in>set (candidates pe w). identified pe w ip))
   \<and> (is_healthy (fst (checkAllPodsHavePodId pe w)) \<or>
        (\<exists>reason success.
           fst (checkAllPodsHavePodId pe w) = Unhealthy reason success \<and>
           reason \<in> {''dns_error'', ''no_ips'', ''some_pods_unhealthy''} \<and>
           (reason = ''dns_error'' \<longleftrightarrow> COLYSEUS_INTERNAL_URL pe = None) \<and>
           (reason = ''no_ips'' \<longleftrightarrow> COLYSEUS_INTERNAL_URL pe \<noteq> None \<and> candidates pe w = []) \<and>
           (reason = ''some_pods_unhealthy'' \<longrightarrow>
              (\<exists>pods. success = Some pods \<and>
                 map pod_ip pods = filter (identified pe w) (candidates pe w) \<and>
                 (\<forall>p\<in>set pods. health_probe pe w (pod_ip p) = Fulfilled p)))))
   \<and> (identified pe w ip \<longleftrightarrow>
        (\<exists>v s. http_get w (podid_url pe ip) 2000 = Replied (Data v) \<and>
               opt_toString v = Inr (Some s) \<and> s \<noteq> []))"
proof (intro conjI)
  show "identified pe w ip \<longleftrightarrow>
        (\<exists>v s. http_get w (podid_url pe ip) 2000 = Replied (Data v) \<and>
               opt_toString v = Inr (Some s) \<and> s \<noteq> [])"
    by (rule identified_iff)
next
  show "is_healthy (fst (checkAllPodsHavePodId pe w)) \<longleftrightarrow>
      candidates pe w \<noteq> [] \<and> (\<forall>ip\<in>set (candidates pe w). identified pe w ip)"
  proof (cases "COLYSEUS_INTERNAL_URL pe")
    case None
    then have "candidates pe w = []" by (simp add: candidates_def)
    with None show ?thesis by (simp add: check_no_host)
  next
    case (Some h)
    then show ?thesis by (simp add: check_host [OF Some])
  qed
next
  show "is_healthy (fst (checkAllPodsHavePodId pe w)) \<or>
        (\<exists>reason success.
           fst (checkAllPodsHavePodId pe w) = Unhealthy reason success \<and>
           reason \<in> {''dns_error'', ''no_ips'', ''some_pods_unhealthy''} \<and>
           (reason = ''dns_error'' \<longleftrightarrow> COLYSEUS_INTERNAL_URL pe = None) \<and>
           (reason = ''no_ips'' \<longleftrightarrow> COLYSEUS_INTERNAL_URL pe \<noteq> None \<and> candidates pe w = []) \<and>
           (reason = ''some_pods_unhealthy'' \<longrightarrow>
              (\<exists>pods. success = Some pods \<and>
                 map pod_ip pods = filter (identified pe w) (candidates pe w) \<and>
                 (\<forall>p\<in>set pods. health_probe pe w (pod_ip p) = Fulfilled p))))"
proof (cases "COLYSEUS_INTERNAL_URL pe")
  case None
  then have "candidates pe w = []" by (simp add: candidates_def)
  with None show ?thesis by (simp add: check_no_host)
next
  case (Some h)
  show ?thesis
  proof (cases "candidates pe w = []")
    case True
    with Some show ?thesis by (simp add: check_host [OF Some])
  next
    case False
    show ?thesis
    proof (cases "\<forall>ip\<in>set (candidates pe w). identified pe w ip")
      case True
      with False show ?thesis by (simp add: check_host [OF Some])
    next
      case no: False
      have "fst (checkAllPodsHavePodId pe w) = Unhealthy ''some_pods_unhealthy''
             (Some (fulfilled_values (map (health_probe pe w) (candidates pe w))))"
        using False no by (simp add: check_host [OF Some])
      then show ?thesis
        using False no Some health_addresses [of pe w "candidates pe w"] health_values [of _ pe w "candidates pe w"]
        by simp
    qed
  qed
qed
qed

theorem health_ok_iff_witness:
  "candidates ex_pe ex_world \<noteq> [] \<and>
   identified ex_pe ex_world ''10.0.0.1'' \<and> identified ex_pe ex_world ''10.0.0.2'' \<and>
   identified ex_pe ex_world ''10.0.0.3'' \<and>
   is_healthy (fst (checkAllPodsHavePodId ex_pe ex_world)) \<and>
   \<not> identified ex_pe ex_bad ''fd12::1'' \<and>
   filter (identified ex_pe ex_bad) (candidates ex_pe ex_bad) = [''fd12::5''] \<and>
   \<not> is_healthy (fst (checkAllPodsHavePodId ex_pe ex_bad)) \<and>
   (\<exists>reason pods. fst (checkAllPodsHavePodId ex_pe ex_bad) = Unhealthy reason (Some pods) \<and>
      reason = ''some_pods_unhealthy'' \<and> map pod_ip pods = [''fd12::5''])"
proof -
  have f: "filter (identified ex_pe ex_bad) (candidates ex_pe ex_bad) = [''fd12::5'']"
    by (simp add: ex_bad_candidates ex_bad_identified)
  have g: "is_healthy (fst (checkAllPodsHavePodId ex_pe ex_world))"
    using health_ok_iff [of ex_pe ex_world] by (simp add: ex_candidates ex_world_identified)
  have n: "\<not> is_healthy (fst (checkAllPodsHavePodId ex_pe ex_bad))"
    using health_ok_iff [of ex_pe ex_bad] by (simp add: ex_bad_candidates ex_bad_identified)
  note d = health_ok_iff [of ex_pe ex_bad, THEN conjunct2, THEN conjunct1]
  from d have "\<exists>reason success.
      fst (checkAllPodsHavePodId ex_pe ex_bad) = Unhealthy reason success \<and>
      reason \<in> {''dns_error'', ''no_ips'', ''some_pods_unhealthy''} \<and>
      (reason = ''dns_error'' \<longleftrightarrow> COLYSEUS_INTERNAL_URL ex_pe = None) \<and>
      (reason = ''no_ips'' \<longleftrightarrow> COLYSEUS_INTERNAL_URL ex_pe \<noteq> None \<and> candidates ex_pe ex_bad = []) \<and>
      (reason = ''some_pods_unhealthy'' \<longrightarrow>
         (\<exists>pods. success = Some pods \<and>
            map pod_ip pods = filter (identified ex_pe ex_bad) (candidates ex_pe ex_bad) \<and>
            (\<forall>p\<in>set pods. health_probe ex_pe ex_bad (pod_ip p) = Fulfilled p)))"
  proof (rule disjE)
    assume "is_healthy (fst (checkAllPodsHavePodId ex_pe ex_bad))"
    with n show ?thesis by (rule notE)
  qed
  then obtain reason success where
    r: "fst (checkAllPodsHavePodId ex_pe ex_bad) = Unhealthy reason success"
      "reason \<in> {''dns_error'', ''no_ips'', ''some_pods_unhealthy''}"
      "reason = ''dns_error'' \<longleftrightarrow> COLYSEUS_INTERNAL_URL ex_pe = None"
      "reason = ''no_ips'' \<longleftrightarrow> COLYSEUS_INTERNAL_URL ex_pe \<noteq> None \<and> candidates ex_pe ex_bad = []"
      "reason = ''some_pods_unhealthy'' \<longrightarrow>
              (\<exists>pods. success = Some pods \<and>
                 map pod_ip pods = filter (identified ex_pe ex_bad) (candidates ex_pe ex_bad) \<and>
                 (\<forall>p\<in>set pods. health_probe ex_pe ex_bad (pod_ip p) = Fulfilled p))"
    by (elim exE conjE)
  from r(2-4) have "reason = ''some_pods_unhealthy''"
    by (auto simp: ex_host ex_bad_candidates)
  with r(1,5) f have "\<exists>reason pods. fst (checkAllPodsHavePodId ex_pe ex_bad) = Unhealthy reason (Some pods) \<and>
      reason = ''some_pods_unhealthy'' \<and> map pod_ip pods = [''fd12::5'']"
    by auto
  with f g n show ?thesis
    by (simp add: ex_candidates ex_world_identified ex_bad_identified)
qed

section \<open>The handlers\<close>

lemma route_http_discovery:
  assumes "path_podId pathname (req_url req) = Inr (Some podId)" and "podId \<noteq> []"
  shows "route_http pe pathname w cache req =
     (case discoverAndGetIp pe w cache podId of
        (r, cache', ev) \<Rightarrow>
          ((case r of
              Inl e \<Rightarrow> Unhandled e
            | Inr None \<Rightarrow> not_found_504
            | Inr (Some tip) \<Rightarrow>
                if tip = [] then not_found_504
                else ProxyWeb (''http://'' @ bracketed tip @ '':'' @ COLYSEUS_PORT pe)),
           cache', ev))"
  using assms
  by (simp add: route_http_def not_found_504_def split: prod.splits sum.splits option.splits)

lemma upgrade_discovery:
  assumes "path_podId pathname (req_url req) = Inr (Some podId)" and "podId \<noteq> []"
  shows "upgrade_handler pe pathname w cache req =
     (case discoverAndGetIp pe w cache podId of
        (r, cache', ev) \<Rightarrow>
          ((case r of
              Inl e \<Rightarrow> WsUnhandled e
            | Inr None \<Rightarrow> Destroyed
            | Inr (Some tip) \<Rightarrow>
                if tip = [] then Destroyed
                else ProxyWs (''ws://'' @ bracketed tip @ '':'' @ COLYSEUS_PORT pe)
                       (Some (bracketed tip @ '':'' @ COLYSEUS_PORT pe))),
           cache', ev))"
  using assms
  by (simp add: upgrade_handler_def bracketed_def split: prod.splits sum.splits option.splits)

lemma route_not_health: "\<not> is_health_answer (fst (route_http pe pathname w cache req))"
  by (simp add: route_http_def split: prod.splits sum.splits option.splits)

lemma handler_health:
  "req_method req = ''GET'' \<Longrightarrow> req_url req = ''/health'' \<Longrightarrow>
     is_health_answer (fst (http_handler pe pathname w cache req))"
  by (simp add: http_handler_def split: prod.splits health.splits)

lemma handler_route:
  "\<not> (req_method req = ''GET'' \<and> req_url req = ''/health'') \<Longrightarrow>
     http_handler pe pathname w cache req = route_http pe pathname w cache req"
  by (auto simp: http_handler_def)

lemma ex_gamma_path: "path_podId ex_pathname (req_url ex_gamma_req) = Inr (Some ''gamma'')"
  by (simp add: path_podId_def ex_pathname_def ex_gamma_req_def)

lemma ex_empty_candidates: "candidates ex_pe ex_empty = []"
  by (simp add: candidates_def ex_pe_def ex_empty_def spread_set_def catch_empty_def)

lemma ex_gamma_null:
  "fst (discoverAndGetIp ex_pe ex_empty Map.empty ''gamma'') = Inr None"
  "fst (discoverAndGetIp ex_pe ex_world Map.empty ''gamma'') = Inr None"
proof -
  have "\<forall>a\<in>set (candidates ex_pe ex_empty). \<not> reports ex_pe ex_empty a ''gamma''"
    by (simp add: ex_empty_candidates)
  from discover_round_none [OF this, of Map.empty]
  show "fst (discoverAndGetIp ex_pe ex_empty Map.empty ''gamma'') = Inr None"
    by (auto simp: discoverAndGetIp_def)
  have "\<forall>a\<in>set (candidates ex_pe ex_world). \<not> reports ex_pe ex_world a ''gamma''"
    by (simp add: ex_candidates ex_reports)
  from discover_round_none [OF this, of Map.empty]
  show "fst (discoverAndGetIp ex_pe ex_world Map.empty ''gamma'') = Inr None"
    by (auto simp: discoverAndGetIp_def)
qed

text \<open>
  C3, as the code has it. When the resolver yields no candidate address, discovery returns
  \<open>null\<close>, and it returns \<open>null\<close> as well when candidates exist and none reports the podId;
  for a request that routes to that podId the request handler answers 504 with the same
  body in both cases, and the upgrade handler destroys the socket in both.
\<close>

theorem no_candidates_is_null:
  assumes "\<not> cache_valid w cache podId" and "\<not> cache_valid w' cache podId"
    and "candidates pe w = []"
    and "candidates pe w' \<noteq> []" and "\<forall>a\<in>set (candidates pe w'). \<not> reports pe w' a podId"
  shows "fst (discoverAndGetIp pe w cache podId) = Inr None \<and>
         fst (discoverAndGetIp pe w' cache podId) = Inr None \<and>
         (path_podId pathname (req_url req) = Inr (Some podId) \<and> podId \<noteq> [] \<and>
          \<not> (req_method req = ''GET'' \<and> req_url req = ''/health'') \<longrightarrow>
            fst (http_handler pe pathname w cache req) = not_found_504 \<and>
            fst (http_handler pe pathname w' cache req) = not_found_504 \<and>
            fst (upgrade_handler pe pathname w cache req) = Destroyed \<and>
            fst (upgrade_handler pe pathname w' cache req) = Destroyed)"
proof -
  have a: "\<forall>a\<in>set (candidates pe w). \<not> reports pe w a podId"
    using assms(3) by simp
  from discover_round_none [OF a, of cache] discover_miss [OF assms(1), of pe]
  have 1: "fst (discoverAndGetIp pe w cache podId) = Inr None" by auto
  from discover_round_none [OF assms(5), of cache] discover_miss [OF assms(2), of pe]
  have 2: "fst (discoverAndGetIp pe w' cache podId) = Inr None" by auto
  have 3: "fst (http_handler pe pathname v cache req) = not_found_504 \<and>
           fst (upgrade_handler pe pathname v cache req) = Destroyed"
    if "fst (discoverAndGetIp pe v cache podId) = Inr None"
      and "path_podId pathname (req_url req) = Inr (Some podId) \<and> podId \<noteq> [] \<and>
          \<not> (req_method req = ''GET'' \<and> req_url req = ''/health'')" for v
    using that
    by (auto simp: handler_route route_http_discovery upgrade_discovery split: prod.splits)
  from 1 2 3 [of w] 3 [of w'] show ?thesis by blast
qed

theorem no_candidates_is_null_witness:
  "\<not> cache_valid ex_empty Map.empty ''gamma'' \<and> \<not> cache_valid ex_world Map.empty ''gamma'' \<and>
   candidates ex_pe ex_empty = [] \<and> candidates ex_pe ex_world \<noteq> [] \<and>
   path_podId ex_pathname (req_url ex_gamma_req) = Inr (Some ''gamma'') \<and>
   fst (discoverAndGetIp ex_pe ex_empty Map.empty ''gamma'') = Inr None \<and>
   fst (discoverAndGetIp ex_pe ex_world Map.empty ''gamma'') = Inr None \<and>
   fst (http_handler ex_pe ex_pathname ex_empty Map.empty ex_gamma_req) = not_found_504 \<and>
   fst (http_handler ex_pe ex_pathname ex_world Map.empty ex_gamma_req) = not_found_504 \<and>
   fst (upgrade_handler ex_pe ex_pathname ex_empty Map.empty ex_gamma_req) = Destroyed \<and>
   fst (upgrade_handler ex_pe ex_pathname ex_world Map.empty ex_gamma_req) = Destroyed"
proof -
  have m: "\<not> cache_valid ex_empty Map.empty ''gamma''" "\<not> cache_valid ex_world Map.empty ''gamma''"
    by (simp_all add: cache_valid_def)
  have c: "candidates ex_pe ex_world \<noteq> []"
    by (simp add: ex_candidates)
  have n: "\<forall>a\<in>set (candidates ex_pe ex_world). \<not> reports ex_pe ex_world a ''gamma''"
    by (simp add: ex_candidates ex_reports)
  have r: "\<not> (req_method ex_gamma_req = ''GET'' \<and> req_url ex_gamma_req = ''/health'')"
    by (simp add: ex_gamma_req_def)
  show ?thesis
    using no_candidates_is_null [OF m ex_empty_candidates c n, of ex_pathname ex_gamma_req]
      m c r ex_gamma_path ex_empty_candidates
    by simp
qed

text \<open>
  C3, as stated, fails: with no candidate on one side, and three candidates none of which
  reports \<open>gamma\<close> on the other, \<open>discoverAndGetIp\<close> returns the same value, and the two
  handlers give the caller the same answer.
\<close>

theorem no_candidates_indistinguishable:
  "candidates ex_pe ex_empty = [] \<and>
   candidates ex_pe ex_world = [''10.0.0.1'', ''10.0.0.2'', ''10.0.0.3''] \<and>
   \<not> reports ex_pe ex_world ''10.0.0.1'' ''gamma'' \<and>
   \<not> reports ex_pe ex_world ''10.0.0.2'' ''gamma'' \<and>
   \<not> reports ex_pe ex_world ''10.0.0.3'' ''gamma'' \<and>
   fst (discoverAndGetIp ex_pe ex_empty Map.empty ''gamma'') =
     fst (discoverAndGetIp ex_pe ex_world Map.empty ''gamma'') \<and>
   fst (http_handler ex_pe ex_pathname ex_empty Map.empty ex_gamma_req) =
     fst (http_handler ex_pe ex_pathname ex_world Map.empty ex_gamma_req) \<and>
   fst (upgrade_handler ex_pe ex_pathname ex_empty Map.empty ex_gamma_req) =
     fst (upgrade_handler ex_pe ex_pathname ex_world Map.empty ex_gamma_req)"
proof -
  have r: "\<not> (req_method ex_gamma_req = ''GET'' \<and> req_url ex_gamma_req = ''/health'')"
    by (simp add: ex_gamma_req_def)
  have "fst (http_handler ex_pe ex_pathname v Map.empty ex_gamma_req) = not_found_504 \<and>
        fst (upgrade_handler ex_pe ex_pathname v Map.empty ex_gamma_req) = Destroyed"
    if "fst (discoverAndGetIp ex_pe v Map.empty ''gamma'') = Inr None" for v
    using that
    by (auto simp: handler_route [OF r] route_http_discovery [OF ex_gamma_path]
        upgrade_discovery [OF ex_gamma_path] split: prod.splits)
  then show ?thesis
    by (simp add: ex_gamma_null ex_empty_candidates ex_candidates ex_reports)
qed

text \<open>
  C10. The request handler answers with the health JSON exactly when the method is \<open>GET\<close>
  and the request URL is the string \<open>/health\<close>. Every other request goes to the routing by
  podId; when the first non-empty segment of its path is \<open>health\<close> (as for
  \<open>GET /health?x=1\<close> and for \<open>POST /health\<close>), the handler runs discovery for the podId
  \<open>health\<close>: its cache and its calls are those of \<open>discoverAndGetIp\<close> for \<open>health\<close>, and its
  answer is 504 or the hand-off to the discovered address.
\<close>

theorem health_route_exact:
  "(is_health_answer (fst (http_handler pe pathname w cache req)) \<longleftrightarrow>
      req_method req = ''GET'' \<and> req_url req = ''/health'')
   \<and> (\<not> (req_method req = ''GET'' \<and> req_url req = ''/health'') \<longrightarrow>
        http_handler pe pathname w cache req = route_http pe pathname w cache req)
   \<and> (\<not> (req_method req = ''GET'' \<and> req_url req = ''/health'') \<and>
       path_podId pathname (req_url req) = Inr (Some ''health'') \<longrightarrow>
        snd (http_handler pe pathname w cache req) = snd (discoverAndGetIp pe w cache ''health'') \<and>
        fst (http_handler pe pathname w cache req) =
          (case fst (discoverAndGetIp pe w cache ''health'') of
             Inl e \<Rightarrow> Unhandled e
           | Inr None \<Rightarrow> not_found_504
           | Inr (Some tip) \<Rightarrow>
               if tip = [] then not_found_504
               else ProxyWeb (''http://'' @ bracketed tip @ '':'' @ COLYSEUS_PORT pe)))"
proof (intro conjI impI)
  show "is_health_answer (fst (http_handler pe pathname w cache req)) \<longleftrightarrow>
      req_method req = ''GET'' \<and> req_url req = ''/health''"
  proof (cases "req_method req = ''GET'' \<and> req_url req = ''/health''")
    case True
    then show ?thesis by (simp add: handler_health)
  next
    case False
    then show ?thesis by (simp add: handler_route [OF False] route_not_health)
  qed
next
  assume "\<not> (req_method req = ''GET'' \<and> req_url req = ''/health'')"
  then show "http_handler pe pathname w cache req = route_http pe pathname w cache req"
    by (rule handler_route)
next
  assume a: "\<not> (req_method req = ''GET'' \<and> req_url req = ''/health'') \<and>
       path_podId pathname (req_url req) = Inr (Some ''health'')"
  then have e: "http_handler pe pathname w cache req =
     (case discoverAndGetIp pe w cache ''health'' of
        (r, cache', ev) \<Rightarrow>
          ((case r of
              Inl e \<Rightarrow> Unhandled e
            | Inr None \<Rightarrow> not_found_504
            | Inr (Some tip) \<Rightarrow>
                if tip = [] then not_found_504
                else ProxyWeb (''http://'' @ bracketed tip @ '':'' @ COLYSEUS_PORT pe)),
           cache', ev))"
    using route_http_discovery [of pathname req "''health''" pe w cache]
    by (simp add: handler_route)
  show "snd (http_handler pe pathname w cache req) = snd (discoverAndGetIp pe w cache ''health'')"
    by (simp add: e split: prod.splits)
  show "fst (http_handler pe pathname w cache req) =
          (case fst (discoverAndGetIp pe w cache ''health'') of
             Inl e \<Rightarrow> Unhandled e
           | Inr None \<Rightarrow> not_found_504
           | Inr (Some tip) \<Rightarrow>
               if tip = [] then not_found_504
               else ProxyWeb (''http://'' @ bracketed tip @ '':'' @ COLYSEUS_PORT pe))"
    by (simp add: e split: prod.splits)
qed

theorem health_route_exact_witness:
  "path_podId ex_pathname (req_url ex_health_query) = Inr (Some ''health'') \<and>
   path_podId ex_pathname (req_url ex_health_post) = Inr (Some ''health'') \<and>
   \<not> is_health_answer (fst (http_handler ex_pe ex_pathname ex_world Map.empty ex_health_query)) \<and>
   \<not> is_health_answer (fst (http_handler ex_pe ex_pathname ex_world Map.empty ex_health_post)) \<and>
   snd (http_handler ex_pe ex_pathname ex_world Map.empty ex_health_query) =
     snd (discoverAndGetIp ex_pe ex_world Map.empty ''health'') \<and>
   snd (http_handler ex_pe ex_pathname ex_world Map.empty ex_health_post) =
     snd (discoverAndGetIp ex_pe ex_world Map.empty ''health'') \<and>
   is_health_answer (fst (http_handler ex_pe ex_pathname ex_world Map.empty
      \<lparr>req_method = ''GET'', req_url = ''/health''\<rparr>))"
proof -
  have p: "path_podId ex_pathname (req_url ex_health_query) = Inr (Some ''health'')"
      "path_podId ex_pathname (req_url ex_health_post) = Inr (Some ''health'')"
    by (simp_all add: path_podId_def ex_pathname_def ex_health_query_def ex_health_post_def)
  have q: "\<not> (req_method ex_health_query = ''GET'' \<and> req_url ex_health_query = ''/health'')"
      "\<not> (req_method ex_health_post = ''GET'' \<and> req_url ex_health_post = ''/health'')"
    by (simp_all add: ex_health_query_def ex_health_post_def)
  have g: "req_method \<lparr>req_method = ''GET'', req_url = ''/health''\<rparr> = ''GET'' \<and>
           req_url \<lparr>req_method = ''GET'', req_url = ''/health''\<rparr> = ''/health''"
    by simp
  have 1: "\<not> is_health_answer (fst (http_handler ex_pe ex_pathname ex_world Map.empty ex_health_query))
      \<and> snd (http_handler ex_pe ex_pathname ex_world Map.empty ex_health_query) =
          snd (discoverAndGetIp ex_pe ex_world Map.empty ''health'')"
    using health_route_exact [of ex_pe ex_pathname ex_world Map.empty ex_health_query] p(1) q(1)
    by blast
  have 2: "\<not> is_health_answer (fst (http_handler ex_pe ex_pathname ex_world Map.empty ex_health_post))
      \<and> snd (http_handler ex_pe ex_pathname ex_world Map.empty ex_health_post) =
          snd (discoverAndGetIp ex_pe ex_world Map.empty ''health'')"
    using health_route_exact [of ex_pe ex_pathname ex_world Map.empty ex_health_post] p(2) q(2)
    by blast
  have 3: "is_health_answer (fst (http_handler ex_pe ex_pathname ex_world Map.empty
      \<lparr>req_method = ''GET'', req_url = ''/health''\<rparr>))"
    using health_route_exact [of ex_pe ex_pathname ex_world Map.empty
        "\<lparr>req_method = ''GET'', req_url = ''/health''\<rparr>"] g
    by blast
  from 1 2 3 p show ?thesis by simp
qed

section \<open>Requests without a podId\<close>

text \<open>The full variant: with no non-empty first segment the request handler answers 400
  and the upgrade handler destroys the socket, and neither makes a call or touches the
  cache. The minimal variant makes no call either.\<close>

lemma path_podId_root:
  "pathname u = Inr None \<or> pathname u = Inr (Some []) \<or> pathname u = Inr (Some ''/'') \<Longrightarrow>
     path_podId pathname u = Inr None"
  by (auto simp: path_podId_def)

lemma missing_podId_400:
  assumes "path_podId pathname (req_url req) = Inr None"
    and "\<not> (req_method req = ''GET'' \<and> req_url req = ''/health'')"
  shows "http_handler pe pathname w cache req =
           (Ended (Some 400) (Text ''Bad Request: podId missing in path''), cache, [])"
  using assms by (simp add: handler_route route_http_def)

lemma missing_podId_destroyed:
  assumes "path_podId pathname (req_url req) = Inr None"
  shows "upgrade_handler pe pathname w cache req = (Destroyed, cache, [])"
  using assms by (simp add: upgrade_handler_def)

lemma min_missing_podId:
  assumes "req_url req = ''/'' \<or> req_url req = []"
  shows "min_upgrade_handler pe w cache req = (Destroyed, cache, [])"
    and "snd (min_http_handler pe w cache req) = (cache, [])"
  using assms by (auto simp: min_upgrade_handler_def min_http_handler_def min_podId_def)

text \<open>The minimal variant takes the segment from the whole request URL, query included: on
  \<open>/?x=1\<close> it runs discovery for the podId \<open>?x=1\<close>.\<close>

lemma min_query_runs_discovery:
  "snd (min_http_handler pe w cache \<lparr>req_method = m, req_url = ''/?x=1''\<rparr>) =
     snd (getIpForPod pe w cache ''?x=1'')"
  by (simp add: min_http_handler_def min_podId_def split: prod.splits sum.splits)

text \<open>
  C6, the minimal variant at \<open>GET /\<close>: the handler ends the response with the body
  \<open>Bad request\<close> and no call to \<open>writeHead\<close>, so the status sent is 200 and not 400; it makes
  no call and leaves the cache as it is.
\<close>

theorem missing_podId_minimal_status:
  "min_http_handler pe w cache \<lparr>req_method = m, req_url = ''/''\<rparr> =
     (Ended None (Text ''Bad request''), cache, []) \<and>
   status_sent (fst (min_http_handler pe w cache \<lparr>req_method = m, req_url = ''/''\<rparr>)) = Some 200"
  by (simp add: min_http_handler_def min_podId_def)

section \<open>Composing host and port\<close>

text \<open>The full variant puts an address that contains a colon in square brackets and any
  other address as it is; the proxy targets and the \<open>host\<close> header are composed the same way
  (\<open>route_http_discovery\<close>, \<open>upgrade_discovery\<close>).\<close>

lemma full_host_port:
  "podid_url pe ip =
     (if CHR '':'' \<in> set ip then ''http://['' @ ip @ '']:'' @ COLYSEUS_PORT pe @ ''/podid''
      else ''http://'' @ ip @ '':'' @ COLYSEUS_PORT pe @ ''/podid'')"
  by (simp add: podid_url_def bracketed_def includes_colon_def)

text \<open>
  C7, the minimal variant on IPv6 candidates: \<open>getIpForPod\<close> probes each address at a URL
  with the bare address before the port, \<open>http://fd12::1:2567/podid\<close>, where
  \<open>discoverAndGetIp\<close> probes \<open>http://[fd12::1]:2567/podid\<close>.
\<close>

theorem minimal_ipv6_unbracketed:
  "candidates ex_pe ex_bad = [''fd12::1'', ''fd12::2'', ''fd12::3'', ''fd12::4'', ''fd12::5''] \<and>
   snd (snd (getIpForPod ex_pe ex_bad Map.empty ''7'')) =
     [Resolve4 (Some ''colyseus.internal''), Resolve6 (Some ''colyseus.internal''),
      HttpGet ''http://fd12::1:2567/podid'' 2500, HttpGet ''http://fd12::2:2567/podid'' 2500,
      HttpGet ''http://fd12::3:2567/podid'' 2500, HttpGet ''http://fd12::4:2567/podid'' 2500,
      HttpGet ''http://fd12::5:2567/podid'' 2500] \<and>
   snd (snd (discoverAndGetIp ex_pe ex_bad Map.empty ''8'')) =
     [Resolve4 (Some ''colyseus.internal''), Resolve6 (Some ''colyseus.internal''),
      HttpGet ''http://[fd12::1]:2567/podid'' 3000, HttpGet ''http://[fd12::2]:2567/podid'' 3000,
      HttpGet ''http://[fd12::3]:2567/podid'' 3000, HttpGet ''http://[fd12::4]:2567/podid'' 3000,
      HttpGet ''http://[fd12::5]:2567/podid'' 3000]"
proof -
  have p: "COLYSEUS_PORT ex_pe = ''2567''"
    by (simp add: COLYSEUS_PORT_def ex_pe_def)
  show ?thesis
    by (simp add: getIpForPod_def discoverAndGetIp_def min_round_host [OF ex_host]
        discover_round_host [OF ex_host] ex_bad_candidates min_probe_def probe_def
        ex_bad_min_probes ex_bad_probes min_podid_url_def podid_url_def bracketed_def
        includes_colon_def p)
qed

end
